theory Spec2Isabelle
  imports Main "HOL-Library.Sublist"
begin

section \<open>JavaScript strings\<close>

text \<open>
  A JavaScript string is a sequence of UTF-16 code units. The literals of the source are
  ASCII; \<open>js\<close> embeds a HOL string literal as code units.
\<close>

type_synonym js_string = "nat list"

definition js :: "string \<Rightarrow> js_string" where
  "js s = map of_char s"

text \<open>
  \<open>String.prototype.trim\<close>: removes WhiteSpace and LineTerminator code points from both
  ends (ECMA-262, TrimString). Every such code point lies in the basic plane, so it is
  one code unit.
\<close>

definition is_js_whitespace :: "nat \<Rightarrow> bool" where
  "is_js_whitespace u \<longleftrightarrow>
     u = 0x9 \<or> u = 0xA \<or> u = 0xB \<or> u = 0xC \<or> u = 0xD \<or> u = 0x20 \<or> u = 0xA0 \<or>
     u = 0x1680 \<or> (0x2000 \<le> u \<and> u \<le> 0x200A) \<or> u = 0x2028 \<or> u = 0x2029 \<or>
     u = 0x202F \<or> u = 0x205F \<or> u = 0x3000 \<or> u = 0xFEFF"

definition trim :: "js_string \<Rightarrow> js_string" where
  "trim s = rev (dropWhile is_js_whitespace (rev (dropWhile is_js_whitespace s)))"

text \<open>
  \<open>String.prototype.toUpperCase\<close>: the string is read as code points (a high surrogate
  followed by a low surrogate is one code point), each code point is replaced by its
  Unicode upper-case mapping, and the result is encoded as UTF-16 again. For a code point
  below 128 the mapping turns \<open>a\<close> .. \<open>z\<close> into \<open>A\<close> .. \<open>Z\<close> and changes nothing
  else. For the other code points the mapping is the Unicode table of the JavaScript
  engine, which is not part of this program: it is the parameter \<open>up\<close>, from a code
  point to the code points that replace it.
\<close>

definition is_high_surrogate :: "nat \<Rightarrow> bool" where
  "is_high_surrogate u \<longleftrightarrow> 0xD800 \<le> u \<and> u \<le> 0xDBFF"

definition is_low_surrogate :: "nat \<Rightarrow> bool" where
  "is_low_surrogate u \<longleftrightarrow> 0xDC00 \<le> u \<and> u \<le> 0xDFFF"

definition code_point :: "nat \<Rightarrow> nat \<Rightarrow> nat" where
  "code_point hi lo = 0x10000 + (hi - 0xD800) * 0x400 + (lo - 0xDC00)"

definition utf16_encode :: "nat \<Rightarrow> js_string" where
  "utf16_encode cp =
     (if cp < 0x10000 then [cp]
      else [0xD800 + (cp - 0x10000) div 0x400, 0xDC00 + (cp - 0x10000) mod 0x400])"

definition upper_code_point :: "(nat \<Rightarrow> nat list) \<Rightarrow> nat \<Rightarrow> js_string" where
  "upper_code_point up cp =
     (if 0x61 \<le> cp \<and> cp \<le> 0x7A then [cp - 0x20]
      else if cp < 0x80 then [cp]
      else concat (map utf16_encode (up cp)))"

fun toUpperCase :: "(nat \<Rightarrow> nat list) \<Rightarrow> js_string \<Rightarrow> js_string" where
  "toUpperCase up [] = []"
| "toUpperCase up [u] = upper_code_point up u"
| "toUpperCase up (u # v # rest) =
     (if is_high_surrogate u \<and> is_low_surrogate v
      then upper_code_point up (code_point u v) @ toUpperCase up rest
      else upper_code_point up u @ toUpperCase up (v # rest))"

text \<open>\<open>String.prototype.startsWith\<close> with one argument.\<close>

definition startsWith :: "js_string \<Rightarrow> js_string \<Rightarrow> bool" where
  "startsWith s p \<longleftrightarrow> take (length p) s = p"

section \<open>The query classifier\<close>

text \<open>
  \<open>detectQueryType(query)\<close> of \<open>src/index.ts\<close>, for a string argument: the chain of
  \<open>startsWith\<close> tests in the order of the source.
\<close>

definition classify :: "js_string \<Rightarrow> js_string" where
  "classify normalized =
     (if startsWith normalized (js ''SELECT'') then js ''SELECT''
      else if startsWith normalized (js ''INSERT'') then js ''INSERT''
      else if startsWith normalized (js ''UPDATE'') then js ''UPDATE''
      else if startsWith normalized (js ''DELETE'') then js ''DELETE''
      else if startsWith normalized (js ''CREATE'') then js ''CREATE''
      else if startsWith normalized (js ''ALTER'') then js ''ALTER''
      else if startsWith normalized (js ''DROP'') then js ''DROP''
      else if startsWith normalized (js ''TRUNCATE'') then js ''TRUNCATE''
      else if startsWith normalized (js ''REPLACE'') then js ''REPLACE''
      else if startsWith normalized (js ''SHOW'') then js ''SHOW''
      else if startsWith normalized (js ''DESCRIBE'') \<or> startsWith normalized (js ''DESC'')
        then js ''DESCRIBE''
      else js ''OTHER'')"

section \<open>Values, thrown values and the environment\<close>

text \<open>
  The values the program handles without looking inside them (rows of the driver, tool
  arguments, handler results) are JavaScript values. \<open>Num\<close> is a number (integral
  here: the program computes with lengths and counts only); \<open>Opaque\<close> is any other
  host object (a Date, a Buffer), which has none of the properties this program reads.
\<close>

datatype js_value =
    Undefined
  | Null
  | Bool bool
  | Num int
  | Str js_string
  | Arr "js_value list"
  | Obj "(js_string \<times> js_value) list"
  | Opaque nat

text \<open>
  What a \<open>throw\<close> or a rejected promise carries: an \<open>Error\<close> object with its
  message, a \<open>TypeError\<close> raised by the engine (also an instance of \<open>Error\<close>), or a
  value that is not an \<open>Error\<close>, kept with its \<open>String(...)\<close> coercion.
\<close>

datatype fault = ReadOfNullish js_string | NotAFunction js_string | InvalidArgType js_string

datatype thrown = ErrorObj js_string | TypeErr fault | NonError js_string

text \<open>
  Property read \<open>v.k\<close> / \<open>v[k]\<close> for the property names the program reads
  (\<open>query\<close>, \<open>table\<close>, \<open>Tables_in_...\<close>, \<open>Create Table\<close>, \<open>name\<close>,
  \<open>type\<close>, \<open>rowCount\<close>, \<open>affectedRows\<close>): none is a built-in property of a
  string, an array, a number or a boolean. Reading a property of \<open>undefined\<close> or
  \<open>null\<close> throws a TypeError.
\<close>

definition js_prop :: "js_value \<Rightarrow> js_string \<Rightarrow> js_value" where
  "js_prop v k =
     (case v of
        Obj kvs \<Rightarrow> (case map_of kvs k of Some x \<Rightarrow> x | None \<Rightarrow> Undefined)
      | _ \<Rightarrow> Undefined)"

definition is_nullish :: "js_value \<Rightarrow> bool" where
  "is_nullish v \<longleftrightarrow> v = Undefined \<or> v = Null"

definition js_get :: "js_value \<Rightarrow> js_string \<Rightarrow> thrown + js_value" where
  "js_get v k = (if is_nullish v then Inl (TypeErr (ReadOfNullish k)) else Inr (js_prop v k))"

text \<open>Truthiness, as \<open>||\<close>, \<open>&&\<close> and \<open>if\<close> test it.\<close>

definition js_truthy :: "js_value \<Rightarrow> bool" where
  "js_truthy v =
     (case v of
        Undefined \<Rightarrow> False
      | Null \<Rightarrow> False
      | Bool b \<Rightarrow> b
      | Num n \<Rightarrow> n \<noteq> 0
      | Str s \<Rightarrow> s \<noteq> []
      | _ \<Rightarrow> True)"

text \<open>
  What \<open>connection.query\<close> resolves to: an array of rows, or a \<open>ResultSetHeader\<close>
  (of which the program reads three fields).
\<close>

record result_set_header =
  affectedRows :: int
  insertId :: int
  warningStatus :: int

datatype query_results = RowsArray "js_value list" | Header result_set_header

text \<open>
  Everything outside the program that one invocation depends on:
  \<^item> the configuration singleton (\<open>config.mysql.database\<close> is optional; host and port
    appear only rendered as \<open>host:port\<close>);
  \<^item> whether telemetry hands out a span;
  \<^item> the readings of \<open>Date.now()\<close>, in the order they are taken;
  \<^item> the connection pool and the driver: \<open>pool.query\<close> on the statements the code
    casts to row arrays, \<open>pool.getConnection\<close> (\<open>Some e\<close> when it rejects with
    \<open>e\<close>), \<open>connection.query\<close> with its results and field descriptors;
  \<^item> the engine: \<open>JSON.stringify\<close> on driver data (argument: the indentation; result:
    a throw, \<open>undefined\<close> or the text), the Unicode upper-case table, and the wording
    of the TypeError messages;
  \<^item> the literal sections of the onboarding document.
\<close>

record env =
  config_database :: "js_string option"
  config_host_port :: js_string
  telemetry_enabled :: bool
  clock :: "nat \<Rightarrow> int"
  pool_query :: "js_string \<Rightarrow> js_value list \<Rightarrow> thrown + js_value list"
  pool_getConnection :: "thrown option"
  connection_query :: "js_value \<Rightarrow> thrown + (query_results \<times> js_value list option)"
  json_stringify :: "nat \<Rightarrow> js_value \<Rightarrow> thrown + js_string option"
  unicode_upper :: "nat \<Rightarrow> nat list"
  type_error_message :: "fault \<Rightarrow> js_string"
  onboarding_static :: "(js_string \<times> js_value) list"

text \<open>
  The effects of an invocation, in the order they happen, and the number of clock
  readings taken so far.
\<close>

datatype event =
    ToolCall js_string
  | SpanStart js_string
  | SpanSetAttribute js_string js_value
  | SpanEnd
  | QueryDuration int js_string
  | QueryError js_string js_string
  | QueryRows int js_string js_string
  | QueryBytes nat js_string js_string
  | PoolQuery js_string "js_value list"
  | GetConnection bool
  | ConnectionQuery js_value
  | Release
  | ConsoleError js_string thrown

record state =
  trace :: "event list"
  ticks :: nat

definition emit :: "event \<Rightarrow> state \<Rightarrow> state" where
  "emit e st = st\<lparr>trace := trace st @ [e]\<rparr>"

definition now :: "env \<Rightarrow> state \<Rightarrow> int \<times> state" where
  "now E st = (clock E (ticks st), st\<lparr>ticks := Suc (ticks st)\<rparr>)"

section \<open>The instrumentation recorder\<close>

text \<open>A span is an opaque handle; an invocation has at most one.\<close>

datatype span = Span

text \<open>
  Modelled from the spec: \<open>telemetry.ts\<close> (\<open>startSpan\<close>, \<open>recordToolCall\<close>,
  \<open>recordQueryDuration\<close>, \<open>recordQueryError\<close>, \<open>recordQueryRows\<close>,
  \<open>recordQueryBytes\<close>) is not among the sources. By section 4.2 of the spec
  \<open>startSpan\<close> never fails and returns no span when telemetry is disabled, and every
  recording call is fire-and-forget and never throws. Each of the six functions below
  logs its call as one event.
\<close>

definition startSpan :: "env \<Rightarrow> js_string \<Rightarrow> state \<Rightarrow> span option \<times> state" where
  "startSpan E name st =
     (if telemetry_enabled E then (Some Span, emit (SpanStart name) st) else (None, st))"

definition recordToolCall :: "js_string \<Rightarrow> state \<Rightarrow> state" where
  "recordToolCall toolName st = emit (ToolCall toolName) st"

definition recordQueryDuration :: "int \<Rightarrow> js_string \<Rightarrow> state \<Rightarrow> state" where
  "recordQueryDuration duration label st = emit (QueryDuration duration label) st"

definition recordQueryError :: "js_string \<Rightarrow> js_string \<Rightarrow> state \<Rightarrow> state" where
  "recordQueryError toolName message st = emit (QueryError toolName message) st"

definition recordQueryRows :: "int \<Rightarrow> js_string \<Rightarrow> js_string \<Rightarrow> state \<Rightarrow> state" where
  "recordQueryRows n verb toolName st = emit (QueryRows n verb toolName) st"

definition recordQueryBytes :: "nat \<Rightarrow> js_string \<Rightarrow> js_string \<Rightarrow> state \<Rightarrow> state" where
  "recordQueryBytes n verb toolName st = emit (QueryBytes n verb toolName) st"

text \<open>The two span operations of the tracing library; the program guards each with \<open>if (span)\<close>.\<close>

definition span_setAttribute :: "js_string \<Rightarrow> js_value \<Rightarrow> state \<Rightarrow> state" where
  "span_setAttribute k v st = emit (SpanSetAttribute k v) st"

definition span_end :: "state \<Rightarrow> state" where
  "span_end st = emit SpanEnd st"

section \<open>The classifier and the payload size\<close>

text \<open>
  \<open>detectQueryType(query)\<close>: \<open>query.trim()\<close> throws a TypeError when \<open>query\<close> is
  \<open>undefined\<close> or \<open>null\<close> (property read) and when it is any other value that is
  not a string (no \<open>trim\<close> method to call).
\<close>

definition detectQueryType :: "env \<Rightarrow> js_value \<Rightarrow> thrown + js_string" where
  "detectQueryType E query =
     (case query of
        Str q \<Rightarrow> Inr (classify (toUpperCase (unicode_upper E) (trim q)))
      | Undefined \<Rightarrow> Inl (TypeErr (ReadOfNullish (js ''trim'')))
      | Null \<Rightarrow> Inl (TypeErr (ReadOfNullish (js ''trim'')))
      | _ \<Rightarrow> Inl (TypeErr (NotAFunction (js ''query.trim''))))"

text \<open>
  \<open>Buffer.byteLength(s, 'utf8')\<close>: one byte below 0x80, two below 0x800, four for a
  surrogate pair, three otherwise (a lone surrogate is encoded as U+FFFD).
\<close>

fun utf8_byteLength :: "js_string \<Rightarrow> nat" where
  "utf8_byteLength [] = 0"
| "utf8_byteLength [u] = (if u < 0x80 then 1 else if u < 0x800 then 2 else 3)"
| "utf8_byteLength (u # v # rest) =
     (if u < 0x80 then 1 + utf8_byteLength (v # rest)
      else if u < 0x800 then 2 + utf8_byteLength (v # rest)
      else if is_high_surrogate u \<and> is_low_surrogate v then 4 + utf8_byteLength rest
      else 3 + utf8_byteLength (v # rest))"

text \<open>
  \<open>calculatePayloadSize(data)\<close>: the body of the \<open>try\<close>, then the function with its
  \<open>catch\<close>. \<open>Buffer.byteLength(undefined)\<close> throws a TypeError (inside the \<open>try\<close>).
  Like every call, a call of the function yields a number or what it throws, and its
  callers pass a throw on.
\<close>

definition payload_try :: "env \<Rightarrow> js_value \<Rightarrow> thrown + nat" where
  "payload_try E data =
     (case json_stringify E 0 data of
        Inl e \<Rightarrow> Inl e
      | Inr None \<Rightarrow> Inl (TypeErr (InvalidArgType (js ''string'')))
      | Inr (Some s) \<Rightarrow> Inr (utf8_byteLength s))"

definition calculatePayloadSize :: "env \<Rightarrow> js_value \<Rightarrow> thrown + nat" where
  "calculatePayloadSize E data = (case payload_try E data of Inl e \<Rightarrow> Inr 0 | Inr n \<Rightarrow> Inr n)"

section \<open>The handlers\<close>

text \<open>
  \<open>handleOnboarding()\<close>: no statement is issued. The three computed entries are written
  out; the literal sections follow.
\<close>

definition handleOnboarding :: "env \<Rightarrow> state \<Rightarrow> (thrown + js_value) \<times> state" where
  "handleOnboarding E st =
     (Inr (Obj ([(js ''guide'', Str (js ''Welcome to the MySQL MCP Server!'')),
                 (js ''description'',
                    Str (js ''This server provides tools to explore and query MySQL databases efficiently.'')),
                 (js ''configuration'',
                    Obj [(js ''database'',
                            (case config_database E of
                               None \<Rightarrow> Str (js ''Not set - queries will need to specify database'')
                             | Some d \<Rightarrow>
                                 if d = [] then Str (js ''Not set - queries will need to specify database'')
                                 else Str d)),
                         (js ''host'', Str (config_host_port E))])]
                @ onboarding_static E)),
      st)"

text \<open>\<open>config.mysql.database\<close> as a value, and inside a template literal.\<close>

definition database_value :: "env \<Rightarrow> js_value" where
  "database_value E = (case config_database E of None \<Rightarrow> Undefined | Some d \<Rightarrow> Str d)"

definition database_text :: "env \<Rightarrow> js_string" where
  "database_text E = (case config_database E of None \<Rightarrow> js ''undefined'' | Some d \<Rightarrow> d)"

text \<open>\<open>xs.map(f)\<close> where \<open>f\<close> may throw: the first throw ends the loop.\<close>

fun map_throwing :: "('a \<Rightarrow> thrown + 'b) \<Rightarrow> 'a list \<Rightarrow> thrown + 'b list" where
  "map_throwing f [] = Inr []"
| "map_throwing f (x # xs) =
     (case f x of
        Inl e \<Rightarrow> Inl e
      | Inr y \<Rightarrow> (case map_throwing f xs of Inl e \<Rightarrow> Inl e | Inr ys \<Rightarrow> Inr (y # ys)))"

text \<open>\<open>handleListTables()\<close>.\<close>

definition handleListTables :: "env \<Rightarrow> state \<Rightarrow> (thrown + js_value) \<times> state" where
  "handleListTables E st0 =
     (let (queryStartTime, st1) = now E st0;
          st2 = emit (PoolQuery (js ''SHOW TABLES'') []) st1
      in case pool_query E (js ''SHOW TABLES'') [] of
           Inl e \<Rightarrow> (Inl e, st2)
         | Inr rows \<Rightarrow>
             (let (t, st3) = now E st2;
                  queryDuration = t - queryStartTime;
                  tableKey = js ''Tables_in_'' @ database_text E
              in case map_throwing (\<lambda>row. js_get row tableKey) rows of
                   Inl e \<Rightarrow> (Inl e, st3)
                 | Inr tables \<Rightarrow>
                     (let resultData = Obj [(js ''database'', database_value E),
                                            (js ''tables'', Arr tables)]
                      in case calculatePayloadSize E resultData of
                           Inl e \<Rightarrow> (Inl e, st3)
                         | Inr payloadSize \<Rightarrow>
                             (let st4 = recordQueryRows (int (length tables)) (js ''SHOW'')
                                          (js ''list_tables'') st3;
                                  st5 = recordQueryBytes payloadSize (js ''SHOW'') (js ''list_tables'') st4;
                                  st6 = recordQueryDuration queryDuration (js ''list_tables.SHOW'') st5
                              in (Inr resultData, st6)))))"

text \<open>
  \<open>handleGetTableSchema(args)\<close>. The third statement runs inside its own
  \<open>try\<close>/\<open>catch\<close>: \<open>create_table_try\<close> is the body of that \<open>try\<close>, with
  \<open>(createTable as any[])[0]?.['Create Table'] || ''\<close>.
\<close>

definition create_table_try :: "env \<Rightarrow> js_value \<Rightarrow> thrown + js_value" where
  "create_table_try E table =
     (case pool_query E (js ''SHOW CREATE TABLE ??'') [table] of
        Inl e \<Rightarrow> Inl e
      | Inr createTable \<Rightarrow>
          (let first = (case createTable of [] \<Rightarrow> Undefined | r # _ \<Rightarrow> r);
               v = (if is_nullish first then Undefined else js_prop first (js ''Create Table''))
           in Inr (if js_truthy v then v else Str [])))"

definition handleGetTableSchema :: "env \<Rightarrow> js_value \<Rightarrow> state \<Rightarrow> (thrown + js_value) \<times> state" where
  "handleGetTableSchema E args st0 =
     (let (queryStartTime, st1) = now E st0
      in case js_get args (js ''table'') of
           Inl e \<Rightarrow> (Inl e, st1)
         | Inr table \<Rightarrow>
             (let st2 = emit (PoolQuery (js ''DESCRIBE ??'') [table]) st1
              in case pool_query E (js ''DESCRIBE ??'') [table] of
                   Inl e \<Rightarrow> (Inl e, st2)
                 | Inr columns \<Rightarrow>
                     (let st3 = emit (PoolQuery (js ''SHOW INDEXES FROM ??'') [table]) st2
                      in case pool_query E (js ''SHOW INDEXES FROM ??'') [table] of
                           Inl e \<Rightarrow> (Inl e, st3)
                         | Inr indexes \<Rightarrow>
                             (let st4 = emit (PoolQuery (js ''SHOW CREATE TABLE ??'') [table]) st3;
                                  (createTableInfo, st5) =
                                    (case create_table_try E table of
                                       Inr info \<Rightarrow> (info, st4)
                                     | Inl error \<Rightarrow>
                                         (Str [],
                                          emit (ConsoleError (js ''Could not get CREATE TABLE info:'') error) st4));
                                  (t, st6) = now E st5;
                                  queryDuration = t - queryStartTime;
                                  resultData = Obj [(js ''database'', database_value E),
                                                    (js ''table'', table),
                                                    (js ''columns'', Arr columns),
                                                    (js ''indexes'', Arr indexes),
                                                    (js ''createTableStatement'', createTableInfo)]
                              in case calculatePayloadSize E resultData of
                                   Inl e \<Rightarrow> (Inl e, st6)
                                 | Inr payloadSize \<Rightarrow>
                                     (let totalRows = int (length columns) + int (length indexes);
                                          st7 = recordQueryRows totalRows (js ''DESCRIBE'')
                                                  (js ''get_table_schema'') st6;
                                          st8 = recordQueryBytes payloadSize (js ''DESCRIBE'')
                                                  (js ''get_table_schema'') st7;
                                          st9 = recordQueryDuration queryDuration
                                                  (js ''get_table_schema.DESCRIBE'') st8
                                      in (Inr resultData, st9))))))"

text \<open>
  \<open>handleExecuteQuery(args)\<close>. \<open>project_fields\<close> is
  \<open>fields?.map((f) => ({ name: f.name, type: f.type }))\<close>; \<open>execute_try\<close> is the body
  of the \<open>try\<close>, and the handler runs \<open>connection.release()\<close> after it on every
  outcome (the \<open>finally\<close>). The connection is requested, and the query classified,
  before the \<open>try\<close> is entered.
\<close>

definition project_field :: "js_value \<Rightarrow> thrown + js_value" where
  "project_field f =
     (case js_get f (js ''name'') of
        Inl e \<Rightarrow> Inl e
      | Inr n \<Rightarrow>
          (case js_get f (js ''type'') of
             Inl e \<Rightarrow> Inl e
           | Inr t \<Rightarrow> Inr (Obj [(js ''name'', n), (js ''type'', t)])))"

definition project_fields :: "js_value list option \<Rightarrow> thrown + js_value" where
  "project_fields fieldPackets =
     (case fieldPackets of
        None \<Rightarrow> Inr Undefined
      | Some fs \<Rightarrow> (case map_throwing project_field fs of Inl e \<Rightarrow> Inl e | Inr ps \<Rightarrow> Inr (Arr ps)))"

definition execute_try ::
  "env \<Rightarrow> js_value \<Rightarrow> js_string \<Rightarrow> int \<Rightarrow> state \<Rightarrow> (thrown + js_value) \<times> state" where
  "execute_try E query queryType queryStartTime st0 =
     (let st1 = emit (ConnectionQuery query) st0
      in case connection_query E query of
           Inl e \<Rightarrow> (Inl e, st1)
         | Inr (results, fieldPackets) \<Rightarrow>
             (let (t, st2) = now E st1;
                  queryDuration = t - queryStartTime
              in case results of
                   RowsArray rows \<Rightarrow>
                     (case project_fields fieldPackets of
                        Inl e \<Rightarrow> (Inl e, st2)
                      | Inr projected \<Rightarrow>
                          (let resultData = Obj [(js ''rowCount'', Num (int (length rows))),
                                                 (js ''rows'', Arr rows),
                                                 (js ''fields'', projected)]
                           in case calculatePayloadSize E (Arr rows) of
                                Inl e \<Rightarrow> (Inl e, st2)
                              | Inr payloadSize \<Rightarrow>
                                  (let st3 = recordQueryRows (int (length rows)) queryType
                                               (js ''execute_query'') st2;
                                       st4 = recordQueryBytes payloadSize queryType (js ''execute_query'') st3;
                                       st5 = recordQueryDuration queryDuration
                                               (js ''execute_query.'' @ queryType) st4
                                   in (Inr resultData, st5))))
                 | Header resultPacket \<Rightarrow>
                     (let resultData = Obj [(js ''affectedRows'', Num (affectedRows resultPacket)),
                                            (js ''insertId'', Num (insertId resultPacket)),
                                            (js ''warningCount'', Num (warningStatus resultPacket))]
                      in case calculatePayloadSize E resultData of
                           Inl e \<Rightarrow> (Inl e, st2)
                         | Inr payloadSize \<Rightarrow>
                             (let st3 = recordQueryRows (affectedRows resultPacket) queryType
                                          (js ''execute_query'') st2;
                                  st4 = recordQueryBytes payloadSize queryType (js ''execute_query'') st3;
                                  st5 = recordQueryDuration queryDuration
                                          (js ''execute_query.'' @ queryType) st4
                              in (Inr resultData, st5)))))"

definition handleExecuteQuery :: "env \<Rightarrow> js_value \<Rightarrow> state \<Rightarrow> (thrown + js_value) \<times> state" where
  "handleExecuteQuery E args st0 =
     (case pool_getConnection E of
        Some e \<Rightarrow> (Inl e, emit (GetConnection False) st0)
      | None \<Rightarrow>
          (let st1 = emit (GetConnection True) st0
           in case js_get args (js ''query'') of
                Inl e \<Rightarrow> (Inl e, st1)
              | Inr query \<Rightarrow>
                  (case detectQueryType E query of
                     Inl e \<Rightarrow> (Inl e, st1)
                   | Inr queryType \<Rightarrow>
                       (let (queryStartTime, st2) = now E st1;
                            (outcome, st3) = execute_try E query queryType queryStartTime st2
                        in (outcome, emit Release st3)))))"

section \<open>The dispatcher\<close>

text \<open>
  \<open>error instanceof Error ? error.message : String(error)\<close>. The wording of an engine
  TypeError is the engine's.
\<close>

definition message_of :: "env \<Rightarrow> thrown \<Rightarrow> js_string" where
  "message_of E error =
     (case error of
        ErrorObj m \<Rightarrow> m
      | TypeErr f \<Rightarrow> type_error_message E f
      | NonError s \<Rightarrow> s)"

text \<open>
  \<open>JSON.stringify({ error: errorMessage })\<close> for a string \<open>errorMessage\<close>, as ECMA-262
  fixes it (SerializeJSONObject, QuoteJSONString): the quotation mark, the backslash and
  the control characters are escaped, a surrogate that is not part of a pair is written
  as \<open>\u\<close> and four lower-case hexadecimal digits, every other code unit is kept.
\<close>

definition hex_digit :: "nat \<Rightarrow> nat" where
  "hex_digit d = (if d < 10 then 0x30 + d else 0x61 + (d - 10))"

definition unicode_escape :: "nat \<Rightarrow> js_string" where
  "unicode_escape u =
     [0x5C, 0x75, hex_digit (u div 4096 mod 16), hex_digit (u div 256 mod 16),
      hex_digit (u div 16 mod 16), hex_digit (u mod 16)]"

definition quote_unit :: "nat \<Rightarrow> js_string" where
  "quote_unit u =
     (if u = 0x08 then [0x5C, 0x62]
      else if u = 0x09 then [0x5C, 0x74]
      else if u = 0x0A then [0x5C, 0x6E]
      else if u = 0x0C then [0x5C, 0x66]
      else if u = 0x0D then [0x5C, 0x72]
      else if u = 0x22 then [0x5C, 0x22]
      else if u = 0x5C then [0x5C, 0x5C]
      else if u < 0x20 \<or> is_high_surrogate u \<or> is_low_surrogate u then unicode_escape u
      else [u])"

fun quote_units :: "js_string \<Rightarrow> js_string" where
  "quote_units [] = []"
| "quote_units [u] = quote_unit u"
| "quote_units (u # v # rest) =
     (if is_high_surrogate u \<and> is_low_surrogate v then u # v # quote_units rest
      else quote_unit u @ quote_units (v # rest))"

definition QuoteJSONString :: "js_string \<Rightarrow> js_string" where
  "QuoteJSONString s = [0x22] @ quote_units s @ [0x22]"

definition stringify_error :: "js_string \<Rightarrow> js_string" where
  "stringify_error errorMessage =
     js ''{'' @ QuoteJSONString (js ''error'') @ js '':'' @ QuoteJSONString errorMessage @ js ''}''"

text \<open>The request as the transport delivers it, and the response envelope.\<close>

record request =
  params_name :: js_string
  params_arguments :: js_value

record content_block =
  ctype :: js_string
  ctext :: "js_string option"

record envelope =
  content :: "content_block list"
  isError :: "bool option"

text \<open>
  The \<open>switch (toolName)\<close> of the handler registered for \<open>CallToolRequestSchema\<close>:
  it yields the handler's result or what was thrown.
\<close>

definition run_tool :: "env \<Rightarrow> request \<Rightarrow> span option \<Rightarrow> state \<Rightarrow> (thrown + js_value) \<times> state" where
  "run_tool E request span st =
     (let toolName = params_name request
      in if toolName = js ''onboarding'' then handleOnboarding E st
         else if toolName = js ''list_tables'' then handleListTables E st
         else if toolName = js ''get_table_schema''
           then handleGetTableSchema E (params_arguments request) st
         else if toolName = js ''execute_query'' then
           (let queryArgs = params_arguments request
            in case js_get queryArgs (js ''query'') of
                 Inl e \<Rightarrow> (Inl e, st)
               | Inr query \<Rightarrow>
                   (case detectQueryType E query of
                      Inl e \<Rightarrow> (Inl e, st)
                    | Inr queryType \<Rightarrow>
                        handleExecuteQuery E queryArgs
                          (case span of
                             None \<Rightarrow> st
                           | Some _ \<Rightarrow> span_setAttribute (js ''query.type'') (Str queryType) st)))
         else (Inl (ErrorObj (js ''Unknown tool: '' @ toolName)), st))"

text \<open>
  The attributes set on a span after a handler returned. The inner reads happen only for
  a truthy \<open>result\<close>, so they cannot throw.
\<close>

definition success_attributes :: "js_string \<Rightarrow> js_value \<Rightarrow> state \<Rightarrow> state" where
  "success_attributes toolName result st0 =
     (let st1 = span_setAttribute (js ''success'') (Bool True) st0
      in if toolName = js ''execute_query'' \<and> js_truthy result then
           (if js_prop result (js ''rowCount'') \<noteq> Undefined
              then span_setAttribute (js ''query.rows'') (js_prop result (js ''rowCount'')) st1
            else if js_prop result (js ''affectedRows'') \<noteq> Undefined
              then span_setAttribute (js ''query.affected_rows'')
                     (js_prop result (js ''affectedRows'')) st1
            else st1)
         else st1)"

text \<open>
  The \<open>try\<close> block: the switch, then the duration record, the span, and the
  serialisation of the result in the \<open>return\<close>, which is still inside the \<open>try\<close>.
\<close>

definition try_block ::
  "env \<Rightarrow> request \<Rightarrow> span option \<Rightarrow> int \<Rightarrow> state \<Rightarrow> (thrown + envelope) \<times> state" where
  "try_block E request span startTime st0 =
     (case run_tool E request span st0 of
        (Inl e, st1) \<Rightarrow> (Inl e, st1)
      | (Inr result, st1) \<Rightarrow>
          (let (t, st2) = now E st1;
               duration = t - startTime;
               st3 = recordQueryDuration duration (params_name request) st2;
               st4 = (case span of
                        None \<Rightarrow> st3
                      | Some _ \<Rightarrow> span_end (success_attributes (params_name request) result st3))
           in case json_stringify E 2 result of
                Inl e \<Rightarrow> (Inl e, st4)
              | Inr serialized \<Rightarrow>
                  (Inr \<lparr>content = [\<lparr>ctype = js ''text'', ctext = serialized\<rparr>], isError = None\<rparr>,
                   st4)))"

text \<open>The \<open>catch\<close> block.\<close>

definition catch_block ::
  "env \<Rightarrow> js_string \<Rightarrow> span option \<Rightarrow> int \<Rightarrow> thrown \<Rightarrow> state \<Rightarrow> envelope \<times> state" where
  "catch_block E toolName span startTime error st0 =
     (let (t, st1) = now E st0;
          duration = t - startTime;
          errorMessage = message_of E error;
          st2 = recordQueryDuration duration toolName st1;
          st3 = recordQueryError toolName errorMessage st2;
          st4 = (case span of
                   None \<Rightarrow> st3
                 | Some _ \<Rightarrow>
                     span_end
                       (span_setAttribute (js ''error'') (Str errorMessage)
                          (span_setAttribute (js ''success'') (Bool False) st3)))
      in (\<lparr>content = [\<lparr>ctype = js ''text'', ctext = Some (stringify_error errorMessage)\<rparr>],
           isError = Some True\<rparr>,
          st4))"

text \<open>The handler registered for \<open>CallToolRequestSchema\<close>.\<close>

definition call_tool :: "env \<Rightarrow> request \<Rightarrow> state \<Rightarrow> envelope \<times> state" where
  "call_tool E request st0 =
     (let toolName = params_name request;
          st1 = recordToolCall toolName st0;
          (span, st2) = startSpan E (js ''tool.'' @ toolName) st1;
          (startTime, st3) = now E st2
      in case try_block E request span startTime st3 of
           (Inr response, st4) \<Rightarrow> (response, st4)
         | (Inl error, st4) \<Rightarrow> catch_block E toolName span startTime error st4)"

section \<open>Reference definitions\<close>

text \<open>
  The keywords in the order the classifier tests them, each with the verb it yields, and
  the first keyword that is a prefix of the normalised text.
\<close>

definition keyword_priority :: "(js_string \<times> js_string) list" where
  "keyword_priority =
     [(js ''SELECT'', js ''SELECT''), (js ''INSERT'', js ''INSERT''),
      (js ''UPDATE'', js ''UPDATE''), (js ''DELETE'', js ''DELETE''),
      (js ''CREATE'', js ''CREATE''), (js ''ALTER'', js ''ALTER''),
      (js ''DROP'', js ''DROP''), (js ''TRUNCATE'', js ''TRUNCATE''),
      (js ''REPLACE'', js ''REPLACE''), (js ''SHOW'', js ''SHOW''),
      (js ''DESCRIBE'', js ''DESCRIBE''), (js ''DESC'', js ''DESCRIBE'')]"

definition first_prefix_match :: "js_string \<Rightarrow> js_string" where
  "first_prefix_match normalized =
     (case find (\<lambda>(kw, verb). prefix kw normalized) keyword_priority of
        Some (kw, verb) \<Rightarrow> verb
      | None \<Rightarrow> js ''OTHER'')"

definition ascii_upper :: "nat \<Rightarrow> nat" where
  "ascii_upper u = (if 0x61 \<le> u \<and> u \<le> 0x7A then u - 0x20 else u)"

definition is_upper_letter :: "nat \<Rightarrow> bool" where
  "is_upper_letter u \<longleftrightarrow> 0x41 \<le> u \<and> u \<le> 0x5A"

text \<open>
  The classifier as the specification words it: the leading token of the normalised
  text (its code units up to the first white space) is compared with the eleven
  keywords, and anything else is \<open>OTHER\<close>.
\<close>

definition spec_keywords :: "js_string list" where
  "spec_keywords =
     [js ''SELECT'', js ''INSERT'', js ''UPDATE'', js ''DELETE'', js ''CREATE'', js ''ALTER'',
      js ''DROP'', js ''TRUNCATE'', js ''REPLACE'', js ''SHOW'', js ''DESCRIBE'']"

definition leading_token :: "js_string \<Rightarrow> js_string" where
  "leading_token normalized = takeWhile (\<lambda>u. \<not> is_js_whitespace u) normalized"

definition spec_classifier :: "(nat \<Rightarrow> nat list) \<Rightarrow> js_string \<Rightarrow> js_string" where
  "spec_classifier up q =
     (let token = leading_token (toUpperCase up (trim q))
      in if token \<in> set spec_keywords then token else js ''OTHER'')"

text \<open>
  The UTF-8 encoding of a string, byte by byte, as \<open>Buffer.from(s, 'utf8')\<close> produces
  it: a surrogate pair is one code point of four bytes, a surrogate outside a pair is
  replaced by U+FFFD, every other code unit is a code point of one, two or three bytes.
\<close>

definition utf8_unit :: "nat \<Rightarrow> nat list" where
  "utf8_unit u =
     (let cp = (if is_high_surrogate u \<or> is_low_surrogate u then 0xFFFD else u)
      in if cp < 0x80 then [cp]
         else if cp < 0x800 then [0xC0 + cp div 0x40, 0x80 + cp mod 0x40]
         else [0xE0 + cp div 0x1000, 0x80 + cp div 0x40 mod 0x40, 0x80 + cp mod 0x40])"

definition utf8_pair :: "nat \<Rightarrow> nat \<Rightarrow> nat list" where
  "utf8_pair hi lo =
     (let cp = code_point hi lo
      in [0xF0 + cp div 0x40000, 0x80 + cp div 0x1000 mod 0x40, 0x80 + cp div 0x40 mod 0x40,
          0x80 + cp mod 0x40])"

fun utf8_encode :: "js_string \<Rightarrow> nat list" where
  "utf8_encode [] = []"
| "utf8_encode [u] = utf8_unit u"
| "utf8_encode (u # v # rest) =
     (if is_high_surrogate u \<and> is_low_surrogate v then utf8_pair u v @ utf8_encode rest
      else utf8_unit u @ utf8_encode (v # rest))"

text \<open>
  The number of bytes of the UTF-8 encoding of the compact serialisation of a value, and
  0 when the serialiser throws or yields no text.
\<close>

definition payload_bytes :: "env \<Rightarrow> js_value \<Rightarrow> nat" where
  "payload_bytes E data =
     (case json_stringify E 0 data of
        Inl e \<Rightarrow> 0
      | Inr None \<Rightarrow> 0
      | Inr (Some s) \<Rightarrow> length (utf8_encode s))"

text \<open>An upper-case table that leaves every code point outside ASCII as it is.\<close>

definition identity_table :: "nat \<Rightarrow> nat list" where
  "identity_table cp = [cp]"

text \<open>
  An environment for the examples: a database \<open>shop\<close> with the tables \<open>users\<close> and
  \<open>orders\<close>, in which \<open>SHOW CREATE TABLE\<close> is denied; telemetry enabled; a clock that
  advances by five milliseconds per reading; a serialiser that yields the same short text
  for every value (the text plays no role in the examples). The example of a stored
  procedure has the shape the driver gives the result of a \<open>CALL\<close>: the rows of the
  result set followed by a header, and the descriptors of the result set followed by
  \<open>undefined\<close>.
\<close>

definition example_pool_query :: "js_string \<Rightarrow> js_value list \<Rightarrow> thrown + js_value list" where
  "example_pool_query sql params =
     (if sql = js ''SHOW TABLES''
        then Inr [Obj [(js ''Tables_in_shop'', Str (js ''users''))],
                  Obj [(js ''Tables_in_shop'', Str (js ''orders''))]]
      else if sql = js ''DESCRIBE ??''
        then Inr [Obj [(js ''Field'', Str (js ''id'')), (js ''Type'', Str (js ''int''))]]
      else if sql = js ''SHOW INDEXES FROM ??''
        then Inr [Obj [(js ''Key_name'', Str (js ''PRIMARY''))]]
      else Inl (ErrorObj (js ''SHOW command denied to user'')))"

definition example_connection_query ::
  "js_value \<Rightarrow> thrown + (query_results \<times> js_value list option)" where
  "example_connection_query query =
     (if query = Str (js ''SELECT 1'')
        then Inr (RowsArray [Obj [(js ''1'', Num 1)]],
                  Some [Obj [(js ''name'', Str (js ''1'')), (js ''type'', Num 8),
                             (js ''flags'', Num 129)]])
      else if query = Str (js ''DELETE FROM x WHERE 1=0'')
        then Inr (Header \<lparr>affectedRows = 0, insertId = 0, warningStatus = 0\<rparr>, None)
      else if query = Str (js ''CALL list_users()'')
        then Inr (RowsArray [Arr [Obj [(js ''id'', Num 1)]], Obj [(js ''affectedRows'', Num 0)]],
                  Some [Arr [Obj [(js ''name'', Str (js ''id'')), (js ''type'', Num 3)]], Undefined])
      else Inl (ErrorObj (js ''You have an error in your SQL syntax'')))"

definition example_env :: env where
  "example_env =
     \<lparr>config_database = Some (js ''shop''),
      config_host_port = js ''localhost:3306'',
      telemetry_enabled = True,
      clock = (\<lambda>n. 1000 + 5 * int n),
      pool_query = example_pool_query,
      pool_getConnection = None,
      connection_query = example_connection_query,
      json_stringify = (\<lambda>indent v. Inr (Some (js ''{}''))),
      unicode_upper = identity_table,
      type_error_message = (\<lambda>f. js ''TypeError''),
      onboarding_static = []\<rparr>"

definition initial_state :: state where
  "initial_state = \<lparr>trace = [], ticks = 0\<rparr>"

text \<open>
  One invocation, piece by piece: the span and the start time the handler of
  \<open>CallToolRequestSchema\<close> obtains before its \<open>try\<close>, what the \<open>switch\<close> yields, and
  what the whole \<open>try\<close> block yields.
\<close>

definition invocation_span :: "env \<Rightarrow> request \<Rightarrow> state \<Rightarrow> span option" where
  "invocation_span E request st =
     fst (startSpan E (js ''tool.'' @ params_name request) (recordToolCall (params_name request) st))"

definition invocation_start :: "env \<Rightarrow> request \<Rightarrow> state \<Rightarrow> int \<times> state" where
  "invocation_start E request st =
     now E (snd (startSpan E (js ''tool.'' @ params_name request) (recordToolCall (params_name request) st)))"

definition switch_outcome :: "env \<Rightarrow> request \<Rightarrow> state \<Rightarrow> (thrown + js_value) \<times> state" where
  "switch_outcome E request st =
     run_tool E request (invocation_span E request st) (snd (invocation_start E request st))"

definition try_outcome :: "env \<Rightarrow> request \<Rightarrow> state \<Rightarrow> (thrown + envelope) \<times> state" where
  "try_outcome E request st =
     try_block E request (invocation_span E request st) (fst (invocation_start E request st))
       (snd (invocation_start E request st))"

text \<open>The response of the \<open>catch\<close> block for a message.\<close>

definition error_envelope :: "js_string \<Rightarrow> envelope" where
  "error_envelope errorMessage =
     \<lparr>content = [\<lparr>ctype = js ''text'', ctext = Some (stringify_error errorMessage)\<rparr>],
      isError = Some True\<rparr>"

text \<open>
  The handler returned, and the serialisation of its result (in the \<open>return\<close> of the
  \<open>try\<close> block) threw.
\<close>

definition serialization_throws :: "env \<Rightarrow> request \<Rightarrow> state \<Rightarrow> bool" where
  "serialization_throws E request st \<longleftrightarrow>
     \<not> isl (fst (switch_outcome E request st)) \<and> isl (fst (try_outcome E request st))"

text \<open>Counting the events of a kind in the trace of a state.\<close>

definition count_events :: "(event \<Rightarrow> bool) \<Rightarrow> state \<Rightarrow> nat" where
  "count_events P st = length (filter P (trace st))"

definition is_span_end :: "event \<Rightarrow> bool" where
  "is_span_end e = (case e of SpanEnd \<Rightarrow> True | _ \<Rightarrow> False)"

definition is_query_error :: "event \<Rightarrow> bool" where
  "is_query_error e = (case e of QueryError t m \<Rightarrow> True | _ \<Rightarrow> False)"

definition is_duration :: "event \<Rightarrow> bool" where
  "is_duration e = (case e of QueryDuration d l \<Rightarrow> True | _ \<Rightarrow> False)"

definition is_duration_for :: "js_string \<Rightarrow> event \<Rightarrow> bool" where
  "is_duration_for label e = (case e of QueryDuration d l \<Rightarrow> l = label | _ \<Rightarrow> False)"

definition is_acquire :: "event \<Rightarrow> bool" where
  "is_acquire e = (case e of GetConnection ok \<Rightarrow> ok | _ \<Rightarrow> False)"

definition is_get_connection :: "event \<Rightarrow> bool" where
  "is_get_connection e = (case e of GetConnection ok \<Rightarrow> True | _ \<Rightarrow> False)"

definition is_release :: "event \<Rightarrow> bool" where
  "is_release e = (case e of Release \<Rightarrow> True | _ \<Rightarrow> False)"

text \<open>
  The \<open>query\<close> argument when it is a string; the tools that issue statements; the
  invocations that obtain a connection.
\<close>

definition query_text :: "js_value \<Rightarrow> js_string option" where
  "query_text args =
     (case js_get args (js ''query'') of
        Inr (Str q) \<Rightarrow> Some q
      | _ \<Rightarrow> None)"

definition db_tool :: "js_string \<Rightarrow> bool" where
  "db_tool toolName \<longleftrightarrow>
     toolName = js ''list_tables'' \<or> toolName = js ''get_table_schema'' \<or>
     toolName = js ''execute_query''"

definition connects :: "env \<Rightarrow> request \<Rightarrow> bool" where
  "connects E request \<longleftrightarrow>
     params_name request = js ''execute_query'' \<and>
     query_text (params_arguments request) \<noteq> None \<and> pool_getConnection E = None"

text \<open>
  The two result shapes of \<open>execute_query\<close> as the specification names them, the
  projection of a field descriptor, and the verb of a query text.
\<close>

definition field_names :: "js_value \<Rightarrow> js_string list" where
  "field_names v = (case v of Obj kvs \<Rightarrow> map fst kvs | _ \<Rightarrow> [])"

definition row_set_result :: "js_value list \<Rightarrow> js_value \<Rightarrow> js_value" where
  "row_set_result rows projected =
     Obj [(js ''rowCount'', Num (int (length rows))), (js ''rows'', Arr rows), (js ''fields'', projected)]"

definition mutation_result :: "result_set_header \<Rightarrow> js_value" where
  "mutation_result h =
     Obj [(js ''affectedRows'', Num (affectedRows h)), (js ''insertId'', Num (insertId h)),
          (js ''warningCount'', Num (warningStatus h))]"

definition name_and_type :: "js_value \<Rightarrow> js_value" where
  "name_and_type f = Obj [(js ''name'', js_prop f (js ''name'')), (js ''type'', js_prop f (js ''type''))]"

definition verb_of :: "env \<Rightarrow> js_string \<Rightarrow> js_string" where
  "verb_of E q = classify (toUpperCase (unicode_upper E) (trim q))"

text \<open>
  The label under which the handler of a database tool records the duration of its
  statement: \<open>list_tables.SHOW\<close>, \<open>get_table_schema.DESCRIBE\<close>, and
  \<open>execute_query.\<close> followed by the verb of the query text.
\<close>

definition statement_label :: "env \<Rightarrow> request \<Rightarrow> js_string" where
  "statement_label E request =
     (if params_name request = js ''list_tables'' then js ''list_tables.SHOW''
      else if params_name request = js ''get_table_schema'' then js ''get_table_schema.DESCRIBE''
      else js ''execute_query.'' @
             (case query_text (params_arguments request) of
                Some q \<Rightarrow> verb_of E q
              | None \<Rightarrow> []))"

text \<open>
  Reading a JSON text back, as \<open>JSON.parse\<close> does for a text of the form
  \<open>{"key":"value"}\<close>: a string literal ends at the first quotation mark that is not
  escaped; a backslash introduces one of the escapes of JSON, \<open>\u\<close> with four
  hexadecimal digits among them; a control character may not occur unescaped. The result
  is the key and the value of the one field.
\<close>

definition hex_value :: "nat \<Rightarrow> nat option" where
  "hex_value c =
     (if 0x30 \<le> c \<and> c \<le> 0x39 then Some (c - 0x30)
      else if 0x61 \<le> c \<and> c \<le> 0x66 then Some (c - 0x61 + 10)
      else if 0x41 \<le> c \<and> c \<le> 0x46 then Some (c - 0x41 + 10)
      else None)"

definition unescape_char :: "nat \<Rightarrow> nat option" where
  "unescape_char c =
     (if c = 0x22 then Some 0x22
      else if c = 0x5C then Some 0x5C
      else if c = 0x2F then Some 0x2F
      else if c = 0x62 then Some 0x08
      else if c = 0x66 then Some 0x0C
      else if c = 0x6E then Some 0x0A
      else if c = 0x72 then Some 0x0D
      else if c = 0x74 then Some 0x09
      else None)"

definition hex4 :: "nat \<Rightarrow> nat \<Rightarrow> nat \<Rightarrow> nat \<Rightarrow> nat option" where
  "hex4 a b c d =
     (case (hex_value a, hex_value b, hex_value c, hex_value d) of
        (Some x3, Some x2, Some x1, Some x0) \<Rightarrow> Some (x3 * 4096 + x2 * 256 + x1 * 16 + x0)
      | _ \<Rightarrow> None)"

definition prepend :: "nat \<Rightarrow> (js_string \<times> js_string) option \<Rightarrow> (js_string \<times> js_string) option" where
  "prepend u r = (case r of None \<Rightarrow> None | Some (s, rest) \<Rightarrow> Some (u # s, rest))"

fun read_string_body :: "js_string \<Rightarrow> (js_string \<times> js_string) option" where
  "read_string_body [] = None"
| "read_string_body (u # rest) =
     (if u = 0x22 then Some ([], rest)
      else if u = 0x5C then
        (case rest of
           [] \<Rightarrow> None
         | c # rest1 \<Rightarrow>
             if c = 0x75 then
               (case rest1 of
                  a # b # c' # d # rest2 \<Rightarrow>
                    (case hex4 a b c' d of
                       None \<Rightarrow> None
                     | Some x \<Rightarrow> prepend x (read_string_body rest2))
                | _ \<Rightarrow> None)
             else
               (case unescape_char c of
                  None \<Rightarrow> None
                | Some x \<Rightarrow> prepend x (read_string_body rest1)))
      else if u < 0x20 then None
      else prepend u (read_string_body rest))"

definition parse_error_object :: "js_string \<Rightarrow> (js_string \<times> js_string) option" where
  "parse_error_object text =
     (case text of
        b # q # r1 \<Rightarrow>
          if b = 0x7B \<and> q = 0x22 then
            (case read_string_body r1 of
               Some (key, c # q' # r2) \<Rightarrow>
                 if c = 0x3A \<and> q' = 0x22 then
                   (case read_string_body r2 of
                      Some (val, rest) \<Rightarrow> if rest = [0x7D] then Some (key, val) else None
                    | None \<Rightarrow> None)
                 else None
             | _ \<Rightarrow> None)
          else None
      | _ \<Rightarrow> None)"

text \<open>The tools of the \<open>switch\<close>.\<close>

definition registered_tool :: "js_string \<Rightarrow> bool" where
  "registered_tool toolName \<longleftrightarrow>
     toolName = js ''onboarding'' \<or> toolName = js ''list_tables'' \<or>
     toolName = js ''get_table_schema'' \<or> toolName = js ''execute_query''"

text \<open>
  The events of an invocation whose \<open>switch\<close> throws before any handler has had an
  effect: the call count, the span if there is one, and what the \<open>catch\<close> block records.
\<close>

definition error_events :: "env \<Rightarrow> js_string \<Rightarrow> int \<Rightarrow> js_string \<Rightarrow> event list" where
  "error_events E toolName duration errorMessage =
     [ToolCall toolName]
     @ (if telemetry_enabled E then [SpanStart (js ''tool.'' @ toolName)] else [])
     @ [QueryDuration duration toolName, QueryError toolName errorMessage]
     @ (if telemetry_enabled E
        then [SpanSetAttribute (js ''success'') (Bool False),
              SpanSetAttribute (js ''error'') (Str errorMessage), SpanEnd]
        else [])"

text \<open>The result object of \<open>get_table_schema\<close>.\<close>

definition schema_result :: "env \<Rightarrow> js_value \<Rightarrow> js_value list \<Rightarrow> js_value list \<Rightarrow> js_value \<Rightarrow> js_value" where
  "schema_result E table columns indexes createTableInfo =
     Obj [(js ''database'', database_value E), (js ''table'', table),
          (js ''columns'', Arr columns), (js ''indexes'', Arr indexes),
          (js ''createTableStatement'', createTableInfo)]"

text \<open>Requests and a throwing serialiser for the examples.\<close>

definition unknown_request :: request where
  "unknown_request = \<lparr>params_name = js ''drop_database'', params_arguments = Undefined\<rparr>"

definition no_query_request :: request where
  "no_query_request = \<lparr>params_name = js ''execute_query'', params_arguments = Obj []\<rparr>"

definition select_request :: request where
  "select_request =
     \<lparr>params_name = js ''execute_query'',
      params_arguments = Obj [(js ''query'', Str (js ''SELECT 1''))]\<rparr>"

definition delete_request :: request where
  "delete_request =
     \<lparr>params_name = js ''execute_query'',
      params_arguments = Obj [(js ''query'', Str (js ''DELETE FROM x WHERE 1=0''))]\<rparr>"

definition schema_request :: request where
  "schema_request =
     \<lparr>params_name = js ''get_table_schema'',
      params_arguments = Obj [(js ''table'', Str (js ''users''))]\<rparr>"

definition call_request :: request where
  "call_request =
     \<lparr>params_name = js ''execute_query'',
      params_arguments = Obj [(js ''query'', Str (js ''CALL list_users()''))]\<rparr>"

text \<open>A value that is not an \<open>Error\<close>, whose string coercion contains quotation marks.\<close>

definition pool_closed :: thrown where
  "pool_closed = NonError (js ''pool '' @ [0x22] @ js ''main'' @ [0x22] @ js '' closed'')"

definition list_tables_request :: request where
  "list_tables_request = \<lparr>params_name = js ''list_tables'', params_arguments = Undefined\<rparr>"

definition bad_sql_request :: request where
  "bad_sql_request =
     \<lparr>params_name = js ''execute_query'',
      params_arguments = Obj [(js ''query'', Str (js ''SELEC 1''))]\<rparr>"

definition failing_stringify :: "nat \<Rightarrow> js_value \<Rightarrow> thrown + js_string option" where
  "failing_stringify indent v = Inl (ErrorObj (js ''Invalid string length''))"

text \<open>
  A serialiser whose text is a quoted string of four code points, of one, two, three and
  four bytes in UTF-8: a letter, U+00E9, U+20AC and U+1F600 (a surrogate pair).
\<close>

definition accented_stringify :: "nat \<Rightarrow> js_value \<Rightarrow> thrown + js_string option" where
  "accented_stringify indent v = Inr (Some [0x22, 0x61, 0xE9, 0x20AC, 0xD83D, 0xDE00, 0x22])"

section \<open>Properties of the classifier\<close>

lemma startsWith_prefix: "startsWith s p \<longleftrightarrow> prefix p s"
  unfolding startsWith_def prefix_def
  by (metis append_eq_conv_conj)

lemma classify_first_prefix_match: "classify n = first_prefix_match n"
  by (simp add: classify_def first_prefix_match_def keyword_priority_def startsWith_prefix)

lemma toUpperCase_ascii_Cons:
  "u < 0x80 \<Longrightarrow> toUpperCase up (u # s) = ascii_upper u # toUpperCase up s"
  by (cases s) (auto simp: upper_code_point_def ascii_upper_def is_high_surrogate_def)

lemma toUpperCase_ascii_append:
  "list_all (\<lambda>u. u < 0x80) w \<Longrightarrow> toUpperCase up (w @ s) = map ascii_upper w @ toUpperCase up s"
  by (induction w) (simp_all add: toUpperCase_ascii_Cons)

lemma trim_right_keeps:
  assumes "w \<noteq> []" "\<not> P (last w)"
  shows "\<exists>r. rev (dropWhile P (rev (w @ s))) = w @ r"
proof -
  from assms have "dropWhile P (rev w) = rev w"
    by (cases w rule: rev_cases) auto
  then show ?thesis
    by (auto simp: dropWhile_append)
qed

lemma trim_keeps:
  assumes "list_all is_js_whitespace ws" "w \<noteq> []"
    and "\<not> is_js_whitespace (hd w)" "\<not> is_js_whitespace (last w)"
  shows "\<exists>r. trim (ws @ w @ s) = w @ r"
proof -
  from assms have "dropWhile is_js_whitespace (ws @ w @ s) = w @ s"
    by (cases w) (auto simp: dropWhile_append list_all_iff)
  then show ?thesis
    unfolding trim_def using trim_right_keeps[of w is_js_whitespace s] assms(2,4) by simp
qed

lemma first_prefix_match_keywords:
  "first_prefix_match (js ''SELECT'' @ r) = js ''SELECT''"
  "first_prefix_match (js ''INSERT'' @ r) = js ''INSERT''"
  "first_prefix_match (js ''UPDATE'' @ r) = js ''UPDATE''"
  "first_prefix_match (js ''DELETE'' @ r) = js ''DELETE''"
  "first_prefix_match (js ''CREATE'' @ r) = js ''CREATE''"
  "first_prefix_match (js ''ALTER'' @ r) = js ''ALTER''"
  "first_prefix_match (js ''DROP'' @ r) = js ''DROP''"
  "first_prefix_match (js ''TRUNCATE'' @ r) = js ''TRUNCATE''"
  "first_prefix_match (js ''REPLACE'' @ r) = js ''REPLACE''"
  "first_prefix_match (js ''SHOW'' @ r) = js ''SHOW''"
  "first_prefix_match (js ''DESCRIBE'' @ r) = js ''DESCRIBE''"
  "first_prefix_match (js ''DESC'' @ r) = js ''DESCRIBE''"
  by (simp_all add: first_prefix_match_def keyword_priority_def js_def)

lemma keyword_first_match:
  "(kw, verb) \<in> set keyword_priority \<Longrightarrow> first_prefix_match (kw @ r) = verb"
  by (auto simp: keyword_priority_def first_prefix_match_keywords)

lemma keyword_letters:
  "(kw, verb) \<in> set keyword_priority \<Longrightarrow> kw \<noteq> [] \<and> list_all is_upper_letter kw"
  by (auto simp: keyword_priority_def js_def is_upper_letter_def)

lemma ascii_upper_letter:
  "is_upper_letter (ascii_upper u) \<Longrightarrow> u < 0x80 \<and> \<not> is_js_whitespace u"
  by (auto simp: is_upper_letter_def ascii_upper_def is_js_whitespace_def split: if_splits)

lemma case_variant_ascii:
  assumes "list_all is_upper_letter (map ascii_upper word)"
  shows "list_all (\<lambda>u. u < 0x80) word" "list_all (\<lambda>u. \<not> is_js_whitespace u) word"
  using assms by (induction word) (auto dest: ascii_upper_letter)

lemma detect_keyword:
  assumes kw: "(kw, verb) \<in> set keyword_priority"
    and ws: "list_all is_js_whitespace ws"
    and word: "map ascii_upper word = kw"
  shows "detectQueryType E (Str (ws @ word @ rest)) = Inr verb"
proof -
  from keyword_letters[OF kw] word
  have ne: "word \<noteq> []" and up: "list_all is_upper_letter (map ascii_upper word)"
    by auto
  from case_variant_ascii[OF up]
  have asc: "list_all (\<lambda>u. u < 0x80) word"
    and nws: "list_all (\<lambda>u. \<not> is_js_whitespace u) word"
    by auto
  from ne nws have "\<not> is_js_whitespace (hd word)" "\<not> is_js_whitespace (last word)"
    by (auto simp: list_all_iff)
  with trim_keeps[OF ws ne] obtain r where r: "trim (ws @ word @ rest) = word @ r"
    by blast
  have "toUpperCase (unicode_upper E) (word @ r) = kw @ toUpperCase (unicode_upper E) r"
    using toUpperCase_ascii_append[OF asc] word by simp
  then show ?thesis
    by (simp add: detectQueryType_def r classify_first_prefix_match keyword_first_match[OF kw])
qed

text \<open>
  Claim C4, as amended. The classifier trims the text, upper-cases it and returns the
  verb of the first keyword, in the order SELECT, INSERT, UPDATE, DELETE, CREATE, ALTER,
  DROP, TRUNCATE, REPLACE, SHOW, DESCRIBE, DESC (the last also yielding DESCRIBE), that is
  a prefix of the normalised text, and OTHER when none is. The test is a prefix test, not
  a comparison of the leading token. In particular a text that consists of white space, a
  keyword in any mix of letter cases and any continuation is classified by that keyword.
\<close>

theorem detectQueryType_first_prefix:
  "detectQueryType E (Str q) = Inr (first_prefix_match (toUpperCase (unicode_upper E) (trim q))) \<and>
   ((kw, verb) \<in> set keyword_priority \<and> list_all is_js_whitespace ws \<and> map ascii_upper word = kw
      \<longrightarrow> detectQueryType E (Str (ws @ word @ rest)) = Inr verb)"
proof (intro conjI impI)
  show "detectQueryType E (Str q) = Inr (first_prefix_match (toUpperCase (unicode_upper E) (trim q)))"
    by (simp add: detectQueryType_def classify_first_prefix_match)
next
  assume "(kw, verb) \<in> set keyword_priority \<and> list_all is_js_whitespace ws \<and> map ascii_upper word = kw"
  then show "detectQueryType E (Str (ws @ word @ rest)) = Inr verb"
    using detect_keyword by blast
qed

theorem detectQueryType_first_prefix_witness:
  "((js ''SELECT'', js ''SELECT'') \<in> set keyword_priority \<and>
    list_all is_js_whitespace (js ''  '') \<and> map ascii_upper (js ''select'') = js ''SELECT'') \<and>
   detectQueryType example_env (Str (js ''  '' @ js ''select'' @ js '' 1'')) = Inr (js ''SELECT'')"
  using detectQueryType_first_prefix[where E = example_env and q = "js ''x''"
      and kw = "js ''SELECT''" and verb = "js ''SELECT''" and ws = "js ''  ''"
      and word = "js ''select''" and rest = "js '' 1''"]
  by (simp add: keyword_priority_def js_def is_js_whitespace_def ascii_upper_def)

text \<open>
  Claim C4 as stated fails: the leading token of \<open>SELECTED\<close> is not a keyword, yet the
  classifier answers SELECT, not OTHER; and \<open>DESC\<close>, which is not among the eleven
  keywords of the claim, is classified as DESCRIBE.
\<close>

theorem detectQueryType_token_counterexample:
  "spec_classifier identity_table (js ''SELECTED'') = js ''OTHER'' \<and>
   detectQueryType example_env (Str (js ''SELECTED'')) = Inr (js ''SELECT'') \<and>
   spec_classifier identity_table (js ''DESC foo'') = js ''OTHER'' \<and>
   detectQueryType example_env (Str (js ''DESC foo'')) = Inr (js ''DESCRIBE'')"
  by (simp add: spec_classifier_def leading_token_def spec_keywords_def detectQueryType_def
      example_env_def identity_table_def classify_def startsWith_def trim_def js_def
      is_js_whitespace_def upper_code_point_def is_high_surrogate_def)

section \<open>Properties of the payload size\<close>

lemma length_utf8_unit:
  "length (utf8_unit u) = (if u < 0x80 then 1 else if u < 0x800 then 2 else 3)"
  by (simp add: utf8_unit_def is_high_surrogate_def is_low_surrogate_def Let_def)

lemma utf8_byteLength_encode: "utf8_byteLength s = length (utf8_encode s)"
  by (induction s rule: utf8_byteLength.induct)
     (auto simp add: length_utf8_unit utf8_pair_def Let_def is_high_surrogate_def)

lemma calculatePayloadSize_returns [simp]:
  "calculatePayloadSize E data = Inr (payload_bytes E data)"
  by (simp add: calculatePayloadSize_def payload_try_def payload_bytes_def utf8_byteLength_encode
      split: sum.split option.split)

lemma detectQueryType_stringify:
  "detectQueryType (E\<lparr>json_stringify := f\<rparr>) q = detectQueryType E q"
  by (cases q) (simp_all add: detectQueryType_def)

lemma handleListTables_stringify:
  "fst (handleListTables (E\<lparr>json_stringify := f\<rparr>) st) = fst (handleListTables E st)"
  by (auto simp add: handleListTables_def now_def database_text_def database_value_def Let_def
      split: sum.split prod.split)

lemma handleGetTableSchema_stringify:
  "fst (handleGetTableSchema (E\<lparr>json_stringify := f\<rparr>) args st) = fst (handleGetTableSchema E args st)"
  by (auto simp add: handleGetTableSchema_def create_table_try_def now_def database_text_def
      database_value_def Let_def split: sum.split prod.split)

lemma execute_try_stringify:
  "fst (execute_try (E\<lparr>json_stringify := f\<rparr>) q qt t st) = fst (execute_try E q qt t st)"
  by (auto simp add: execute_try_def now_def Let_def split: sum.split prod.split query_results.split)

lemma handleExecuteQuery_stringify:
  "fst (handleExecuteQuery (E\<lparr>json_stringify := f\<rparr>) args st) = fst (handleExecuteQuery E args st)"
  by (simp add: handleExecuteQuery_def detectQueryType_stringify execute_try_stringify now_def
      Let_def case_prod_beta split: sum.split option.split)

text \<open>
  Claim C8. A call of \<open>calculatePayloadSize\<close> never throws: on every input it returns a
  number, which is the number of bytes of the UTF-8 encoding of the serialised input when
  \<open>JSON.stringify\<close> yields a text, and 0 when it throws or yields no text. What the
  three database handlers return does not depend on the serialiser, so a failure of the
  serialisation made for the metrics changes no handler result.
\<close>

theorem calculatePayloadSize_never_throws:
  "calculatePayloadSize E data =
     Inr (case json_stringify E 0 data of
            Inl e \<Rightarrow> 0
          | Inr None \<Rightarrow> 0
          | Inr (Some s) \<Rightarrow> length (utf8_encode s)) \<and>
   fst (handleListTables (E\<lparr>json_stringify := f\<rparr>) st) = fst (handleListTables E st) \<and>
   fst (handleGetTableSchema (E\<lparr>json_stringify := f\<rparr>) args st) = fst (handleGetTableSchema E args st) \<and>
   fst (handleExecuteQuery (E\<lparr>json_stringify := f\<rparr>) args st) = fst (handleExecuteQuery E args st)"
  by (simp add: payload_bytes_def handleListTables_stringify handleGetTableSchema_stringify
      handleExecuteQuery_stringify)

theorem calculatePayloadSize_never_throws_witness:
  "calculatePayloadSize (example_env\<lparr>json_stringify := accented_stringify\<rparr>) (Arr []) = Inr 12 \<and>
   calculatePayloadSize (example_env\<lparr>json_stringify := failing_stringify\<rparr>) (Arr []) = Inr 0"
  using calculatePayloadSize_never_throws[of "example_env\<lparr>json_stringify := accented_stringify\<rparr>" "Arr []"]
    calculatePayloadSize_never_throws[of "example_env\<lparr>json_stringify := failing_stringify\<rparr>" "Arr []"]
  by (simp add: example_env_def failing_stringify_def accented_stringify_def utf8_unit_def
      utf8_pair_def code_point_def is_high_surrogate_def is_low_surrogate_def Let_def)

section \<open>Evaluation on examples\<close>

lemmas outcome_defs = serialization_throws_def try_outcome_def switch_outcome_def
  invocation_span_def invocation_start_def

lemmas example_defs =
  example_env_def example_pool_query_def example_connection_query_def initial_state_def
  identity_table_def list_tables_request_def bad_sql_request_def failing_stringify_def
  accented_stringify_def select_request_def call_request_def pool_closed_def

lemmas model_defs =
  call_tool_def try_block_def catch_block_def run_tool_def success_attributes_def
  handleOnboarding_def handleListTables_def handleGetTableSchema_def create_table_try_def
  handleExecuteQuery_def execute_try_def project_fields_def project_field_def
  detectQueryType_def payload_bytes_def message_of_def
  startSpan_def recordToolCall_def recordQueryDuration_def recordQueryError_def
  recordQueryRows_def recordQueryBytes_def span_setAttribute_def span_end_def
  emit_def now_def js_get_def js_prop_def is_nullish_def js_truthy_def
  database_value_def database_text_def Let_def

lemma js_eq_iff: "js a = js b \<longleftrightarrow> a = b"
  by (simp add: js_def inj_map_eq_map inj_of_char)

lemma js_append: "js a @ js b = js (a @ b)"
  by (simp add: js_def)

lemma js_append_neq: "length (js a) < length (js b) + length c \<Longrightarrow> js b @ c \<noteq> js a"
  by (metis length_append less_irrefl)

section \<open>Results of the execute-query handler\<close>

lemma map_throwing_project:
  "list_all (\<lambda>f. \<not> is_nullish f) fs \<Longrightarrow> map_throwing project_field fs = Inr (map name_and_type fs)"
  by (induction fs) (simp_all add: project_field_def js_get_def name_and_type_def)

lemma project_fields_Some:
  "list_all (\<lambda>f. \<not> is_nullish f) fs \<Longrightarrow> project_fields (Some fs) = Inr (Arr (map name_and_type fs))"
  by (simp add: project_fields_def map_throwing_project)

lemma project_fields_None: "project_fields None = Inr Undefined"
  by (simp add: project_fields_def)

lemma handleExecuteQuery_rows:
  assumes "pool_getConnection E = None"
    and "js_get args (js ''query'') = Inr (Str q)"
    and "connection_query E (Str q) = Inr (RowsArray rows, fieldPackets)"
    and "project_fields fieldPackets = Inr projected"
  shows "handleExecuteQuery E args st =
           (Inr (row_set_result rows projected),
            \<lparr>trace = trace st @
               [GetConnection True, ConnectionQuery (Str q),
                QueryRows (int (length rows)) (verb_of E q) (js ''execute_query''),
                QueryBytes (payload_bytes E (Arr rows)) (verb_of E q) (js ''execute_query''),
                QueryDuration (clock E (Suc (ticks st)) - clock E (ticks st))
                  (js ''execute_query.'' @ verb_of E q),
                Release],
             ticks = Suc (Suc (ticks st))\<rparr>)"
  using assms
  by (simp add: handleExecuteQuery_def execute_try_def detectQueryType_def verb_of_def now_def
      emit_def recordQueryRows_def recordQueryBytes_def recordQueryDuration_def row_set_result_def
      Let_def)

lemma handleExecuteQuery_header:
  assumes "pool_getConnection E = None"
    and "js_get args (js ''query'') = Inr (Str q)"
    and "connection_query E (Str q) = Inr (Header h, fieldPackets)"
  shows "handleExecuteQuery E args st =
           (Inr (mutation_result h),
            \<lparr>trace = trace st @
               [GetConnection True, ConnectionQuery (Str q),
                QueryRows (affectedRows h) (verb_of E q) (js ''execute_query''),
                QueryBytes (payload_bytes E (mutation_result h)) (verb_of E q) (js ''execute_query''),
                QueryDuration (clock E (Suc (ticks st)) - clock E (ticks st))
                  (js ''execute_query.'' @ verb_of E q),
                Release],
             ticks = Suc (Suc (ticks st))\<rparr>)"
  using assms
  by (simp add: handleExecuteQuery_def execute_try_def detectQueryType_def verb_of_def now_def
      emit_def recordQueryRows_def recordQueryBytes_def recordQueryDuration_def mutation_result_def
      Let_def)

lemma execute_try_shape:
  "fst (execute_try E q qt t st) = Inr r \<Longrightarrow>
     field_names r = [js ''rowCount'', js ''rows'', js ''fields''] \<or>
     field_names r = [js ''affectedRows'', js ''insertId'', js ''warningCount'']"
  by (auto simp: execute_try_def now_def Let_def field_names_def
      split: sum.splits prod.splits query_results.splits)

lemma handleExecuteQuery_shape:
  "fst (handleExecuteQuery E args st) = Inr r \<Longrightarrow>
     field_names r = [js ''rowCount'', js ''rows'', js ''fields''] \<or>
     field_names r = [js ''affectedRows'', js ''insertId'', js ''warningCount'']"
  using execute_try_shape
  by (auto simp: handleExecuteQuery_def now_def Let_def case_prod_beta
      split: sum.splits option.splits)

section \<open>Event counts of the handlers\<close>

lemma count_events_emit [simp]:
  "count_events P (emit e st) = count_events P st + (if P e then 1 else 0)"
  by (simp add: count_events_def emit_def)

lemma count_events_ticks [simp]: "count_events P (st\<lparr>ticks := n\<rparr>) = count_events P st"
  by (simp add: count_events_def)

lemma handleOnboarding_state: "snd (handleOnboarding E st) = st"
  by (simp add: handleOnboarding_def)

lemma handleListTables_counts:
  "count_events is_span_end (snd (handleListTables E st)) = count_events is_span_end st"
  "count_events is_query_error (snd (handleListTables E st)) = count_events is_query_error st"
  "count_events (is_duration_for (js ''list_tables'')) (snd (handleListTables E st)) =
     count_events (is_duration_for (js ''list_tables'')) st"
  "count_events is_get_connection (snd (handleListTables E st)) = count_events is_get_connection st"
  "count_events is_release (snd (handleListTables E st)) = count_events is_release st"
  by (simp_all add: handleListTables_def now_def Let_def recordQueryRows_def recordQueryBytes_def
      recordQueryDuration_def is_span_end_def is_query_error_def is_duration_for_def
      is_get_connection_def is_release_def js_eq_iff split: sum.split)

lemma handleListTables_durations:
  "count_events is_duration (snd (handleListTables E st)) =
     count_events is_duration st + (if isl (fst (handleListTables E st)) then 0 else 1)"
  by (simp add: handleListTables_def now_def Let_def recordQueryRows_def recordQueryBytes_def
      recordQueryDuration_def is_duration_def split: sum.split)

lemma handleGetTableSchema_counts:
  "count_events is_span_end (snd (handleGetTableSchema E args st)) = count_events is_span_end st"
  "count_events is_query_error (snd (handleGetTableSchema E args st)) = count_events is_query_error st"
  "count_events (is_duration_for (js ''get_table_schema'')) (snd (handleGetTableSchema E args st)) =
     count_events (is_duration_for (js ''get_table_schema'')) st"
  "count_events is_get_connection (snd (handleGetTableSchema E args st)) = count_events is_get_connection st"
  "count_events is_release (snd (handleGetTableSchema E args st)) = count_events is_release st"
  by (simp_all add: handleGetTableSchema_def now_def Let_def recordQueryRows_def
      recordQueryBytes_def recordQueryDuration_def is_span_end_def is_query_error_def
      is_duration_for_def is_get_connection_def is_release_def js_eq_iff split: sum.split)

lemma handleGetTableSchema_durations:
  "count_events is_duration (snd (handleGetTableSchema E args st)) =
     count_events is_duration st + (if isl (fst (handleGetTableSchema E args st)) then 0 else 1)"
  by (simp add: handleGetTableSchema_def now_def Let_def recordQueryRows_def recordQueryBytes_def
      recordQueryDuration_def is_duration_def split: sum.split)

lemma execute_try_counts:
  "count_events is_span_end (snd (execute_try E q qt t st)) = count_events is_span_end st"
  "count_events is_query_error (snd (execute_try E q qt t st)) = count_events is_query_error st"
  "count_events (is_duration_for (js ''execute_query'')) (snd (execute_try E q qt t st)) =
     count_events (is_duration_for (js ''execute_query'')) st"
  "count_events is_get_connection (snd (execute_try E q qt t st)) = count_events is_get_connection st"
  "count_events is_acquire (snd (execute_try E q qt t st)) = count_events is_acquire st"
  "count_events is_release (snd (execute_try E q qt t st)) = count_events is_release st"
  by (simp_all add: execute_try_def now_def Let_def recordQueryRows_def recordQueryBytes_def
      recordQueryDuration_def is_span_end_def is_query_error_def is_duration_for_def
      is_get_connection_def is_acquire_def is_release_def js_append_neq js_def
      split: sum.split prod.split query_results.split)

lemma execute_try_durations:
  "count_events is_duration (snd (execute_try E q qt t st)) =
     count_events is_duration st + (if isl (fst (execute_try E q qt t st)) then 0 else 1)"
  by (simp add: execute_try_def now_def Let_def recordQueryRows_def recordQueryBytes_def
      recordQueryDuration_def is_duration_def split: sum.split prod.split query_results.split)

lemma detectQueryType_returns_iff: "\<not> isl (detectQueryType E v) \<longleftrightarrow> (\<exists>q. v = Str q)"
  by (cases v) (simp_all add: detectQueryType_def)

lemma query_text_Some:
  "query_text args = Some q \<longleftrightarrow> js_get args (js ''query'') = Inr (Str q)"
  by (auto simp: query_text_def split: sum.splits js_value.splits)

lemma query_text_None_detect:
  "query_text args = None \<Longrightarrow> js_get args (js ''query'') = Inr v \<Longrightarrow> isl (detectQueryType E v)"
  by (cases v) (simp_all add: query_text_def detectQueryType_def)

lemma handleExecuteQuery_counts:
  "count_events is_span_end (snd (handleExecuteQuery E args st)) = count_events is_span_end st"
  "count_events is_query_error (snd (handleExecuteQuery E args st)) = count_events is_query_error st"
  "count_events (is_duration_for (js ''execute_query'')) (snd (handleExecuteQuery E args st)) =
     count_events (is_duration_for (js ''execute_query'')) st"
  by (simp_all add: handleExecuteQuery_def now_def Let_def case_prod_beta execute_try_counts
      is_span_end_def is_query_error_def is_duration_for_def
      split: sum.split option.split)

lemma handleExecuteQuery_durations:
  "count_events is_duration (snd (handleExecuteQuery E args st)) =
     count_events is_duration st + (if isl (fst (handleExecuteQuery E args st)) then 0 else 1)"
  by (simp add: handleExecuteQuery_def now_def Let_def case_prod_beta execute_try_durations
      is_duration_def split: sum.split option.split)

lemma handler_statement_labels:
  "count_events (is_duration_for (js ''list_tables.SHOW'')) (snd (handleListTables E st)) =
     count_events (is_duration_for (js ''list_tables.SHOW'')) st
     + (if isl (fst (handleListTables E st)) then 0 else 1)"
  "count_events (is_duration_for (js ''get_table_schema.DESCRIBE''))
     (snd (handleGetTableSchema E args st)) =
     count_events (is_duration_for (js ''get_table_schema.DESCRIBE'')) st
     + (if isl (fst (handleGetTableSchema E args st)) then 0 else 1)"
  "count_events (is_duration_for (js ''execute_query.'' @ qt)) (snd (execute_try E q qt t st)) =
     count_events (is_duration_for (js ''execute_query.'' @ qt)) st
     + (if isl (fst (execute_try E q qt t st)) then 0 else 1)"
  by (simp_all add: handleListTables_def handleGetTableSchema_def execute_try_def now_def Let_def
      recordQueryRows_def recordQueryBytes_def recordQueryDuration_def is_duration_for_def
      split: sum.split prod.split query_results.split)

lemma handleExecuteQuery_statement_label:
  assumes "js_get args (js ''query'') = Inr (Str q)"
  shows "count_events (is_duration_for (js ''execute_query.'' @ verb_of E q))
           (snd (handleExecuteQuery E args st)) =
         count_events (is_duration_for (js ''execute_query.'' @ verb_of E q)) st
         + (if isl (fst (handleExecuteQuery E args st)) then 0 else 1)"
  using assms
  by (simp add: handleExecuteQuery_def detectQueryType_def verb_of_def now_def Let_def
      case_prod_beta handler_statement_labels is_duration_for_def split: option.split)

lemma handleExecuteQuery_acquire:
  "count_events is_acquire (snd (handleExecuteQuery E args st)) =
     count_events is_acquire st + (if pool_getConnection E = None then 1 else 0)"
  by (simp add: handleExecuteQuery_def now_def Let_def case_prod_beta execute_try_counts
      is_acquire_def split: sum.split option.split)

lemma handleExecuteQuery_release:
  "count_events is_release (snd (handleExecuteQuery E args st)) =
     count_events is_release st
     + (if pool_getConnection E = None \<and> query_text args \<noteq> None then 1 else 0)"
proof (cases "query_text args")
  case None
  show ?thesis
  proof (cases "js_get args (js ''query'')")
    case (Inl e)
    with None show ?thesis
      by (simp add: handleExecuteQuery_def is_release_def split: option.split)
  next
    case (Inr v)
    with None obtain e where "detectQueryType E v = Inl e"
      using query_text_None_detect[of args v E] by (cases "detectQueryType E v") auto
    with None Inr show ?thesis
      by (simp add: handleExecuteQuery_def is_release_def split: option.split)
  qed
next
  case (Some q)
  then have "js_get args (js ''query'') = Inr (Str q)"
    by (simp add: query_text_Some)
  then show ?thesis
    by (simp add: handleExecuteQuery_def now_def Let_def case_prod_beta execute_try_counts
        is_release_def detectQueryType_def Some split: option.split)
qed

lemma handler_no_connection:
  "count_events is_acquire (snd (handleListTables E st)) = count_events is_acquire st"
  "count_events is_acquire (snd (handleGetTableSchema E args st)) = count_events is_acquire st"
  by (simp_all add: handleListTables_def handleGetTableSchema_def now_def Let_def
      recordQueryRows_def recordQueryBytes_def recordQueryDuration_def is_acquire_def
      split: sum.split)

lemma handler_no_release:
  "count_events is_release (snd (handleListTables E st)) = count_events is_release st"
  "count_events is_release (snd (handleGetTableSchema E args st)) = count_events is_release st"
  by (simp_all add: handleListTables_counts handleGetTableSchema_counts)

section \<open>The error payload read back\<close>

lemma hex_value_digit: "d < 16 \<Longrightarrow> hex_value (hex_digit d) = Some d"
  by (auto simp add: hex_value_def hex_digit_def)

lemma hex_digits_value:
  assumes "(u::nat) < 65536"
  shows "u div 4096 mod 16 * 4096 + u div 256 mod 16 * 256 + u div 16 mod 16 * 16 + u mod 16 = u"
proof -
  define a where "a = u div 16"
  define b where "b = a div 16"
  define c where "c = b div 16"
  have b: "u div 256 = b" and c: "u div 4096 = c"
    by (simp_all add: a_def b_def c_def div_mult2_eq)
  have "c < 16"
    using assms unfolding c[symmetric] by simp
  then have top: "c mod 16 = c"
    by simp
  have "u = a * 16 + u mod 16" "a = b * 16 + a mod 16" "b = c * 16 + b mod 16"
    by (simp_all add: a_def b_def c_def)
  then have "c * 4096 + b mod 16 * 256 + a mod 16 * 16 + u mod 16 = u"
    by linarith
  then show ?thesis
    unfolding b c top a_def[symmetric] by simp
qed

lemma hex4_escape:
  assumes "u < 65536"
  shows "hex4 (hex_digit (u div 4096 mod 16)) (hex_digit (u div 256 mod 16))
           (hex_digit (u div 16 mod 16)) (hex_digit (u mod 16)) = Some u"
proof -
  have digit: "hex_value (hex_digit (x mod 16)) = Some (x mod 16)" for x :: nat
    by (rule hex_value_digit) simp
  show ?thesis
    using hex_digits_value[OF assms]
    by (simp only: hex4_def digit prod.case option.case)
qed

lemma read_unicode_escape:
  "u < 65536 \<Longrightarrow> read_string_body (unicode_escape u @ xs) = prepend u (read_string_body xs)"
  using hex4_escape[of u] by (simp add: unicode_escape_def)

lemma read_plain:
  "0x20 \<le> u \<Longrightarrow> u \<noteq> 0x22 \<Longrightarrow> u \<noteq> 0x5C \<Longrightarrow>
     read_string_body (u # xs) = prepend u (read_string_body xs)"
  by simp

lemma read_quote_unit:
  "read_string_body (quote_unit u @ xs) = prepend u (read_string_body xs)"
proof -
  consider "u = 0x08" | "u = 0x09" | "u = 0x0A" | "u = 0x0C" | "u = 0x0D" | "u = 0x22" | "u = 0x5C"
    | "u \<notin> {0x08, 0x09, 0x0A, 0x0C, 0x0D, 0x22, 0x5C}" "u < 0x20 \<or> is_high_surrogate u \<or> is_low_surrogate u"
    | "u \<notin> {0x08, 0x09, 0x0A, 0x0C, 0x0D, 0x22, 0x5C}" "\<not> (u < 0x20 \<or> is_high_surrogate u \<or> is_low_surrogate u)"
    by blast
  then show ?thesis
  proof cases
    case 8
    then have "u < 65536"
      by (auto simp add: is_high_surrogate_def is_low_surrogate_def)
    with 8 show ?thesis
      by (simp add: quote_unit_def read_unicode_escape)
  next
    case 9
    then have "quote_unit u = [u]"
      by (simp add: quote_unit_def)
    with 9 show ?thesis
      by (simp add: read_plain)
  qed (simp_all add: quote_unit_def unescape_char_def)
qed

lemma read_quote_units:
  "read_string_body (quote_units s @ 0x22 # r) = Some (s, r)"
proof (induction s rule: quote_units.induct)
  case 1
  show ?case by simp
next
  case (2 u)
  show ?case by (simp add: read_quote_unit prepend_def)
next
  case (3 u v rest)
  show ?case
  proof (cases "is_high_surrogate u \<and> is_low_surrogate v")
    case True
    then have "read_string_body (u # v # xs) = prepend u (prepend v (read_string_body xs))" for xs
      by (simp add: is_high_surrogate_def is_low_surrogate_def)
    with True 3 show ?thesis
      by (simp add: prepend_def)
  next
    case False
    then have unfold: "quote_units (u # v # rest) = quote_unit u @ quote_units (v # rest)"
      by auto
    from False 3 have "read_string_body (quote_units (v # rest) @ 0x22 # r) = Some (v # rest, r)"
      by blast
    then show ?thesis
      by (simp add: unfold read_quote_unit prepend_def del: read_string_body.simps quote_units.simps)
  qed
qed

lemma parse_stringify_error:
  "parse_error_object (stringify_error message) = Some (js ''error'', message)"
proof -
  have "stringify_error message =
          0x7B # 0x22 # quote_units (js ''error'') @ 0x22 # 0x3A # 0x22 # quote_units message @ 0x22 # [0x7D]"
    by (simp add: stringify_error_def QuoteJSONString_def js_def)
  then show ?thesis
    by (simp add: parse_error_object_def read_quote_units del: read_string_body.simps)
qed

section \<open>Event counts of the dispatcher\<close>

lemma run_tool_span_end:
  "count_events is_span_end (snd (run_tool E request span st)) = count_events is_span_end st"
  by (simp add: run_tool_def Let_def handleOnboarding_state handleListTables_counts
      handleGetTableSchema_counts handleExecuteQuery_counts span_setAttribute_def is_span_end_def
      split: sum.split option.split)

lemma run_tool_query_error:
  "count_events is_query_error (snd (run_tool E request span st)) = count_events is_query_error st"
  by (simp add: run_tool_def Let_def handleOnboarding_state handleListTables_counts
      handleGetTableSchema_counts handleExecuteQuery_counts span_setAttribute_def
      is_query_error_def split: sum.split option.split)

lemma run_tool_duration_for:
  "count_events (is_duration_for (params_name request)) (snd (run_tool E request span st)) =
     count_events (is_duration_for (params_name request)) st"
  by (auto simp add: run_tool_def Let_def handleOnboarding_state handleListTables_counts
      handleGetTableSchema_counts handleExecuteQuery_counts span_setAttribute_def
      is_duration_for_def split: sum.split option.split)

lemma run_tool_durations:
  "count_events is_duration (snd (run_tool E request span st)) =
     count_events is_duration st
     + (if \<not> isl (fst (run_tool E request span st)) \<and> db_tool (params_name request) then 1 else 0)"
  by (auto simp add: run_tool_def Let_def handleOnboarding_state handleListTables_durations
      handleGetTableSchema_durations handleExecuteQuery_durations span_setAttribute_def
      is_duration_def db_tool_def js_eq_iff split: sum.split option.split)

lemma run_tool_acquire:
  "count_events is_acquire (snd (run_tool E request span st)) =
     count_events is_acquire st + (if connects E request then 1 else 0)"
proof (cases "params_name request = js ''execute_query''")
  case False
  then show ?thesis
    by (simp add: run_tool_def Let_def handleOnboarding_state handler_no_connection connects_def)
next
  case True
  show ?thesis
  proof (cases "query_text (params_arguments request)")
    case None
    show ?thesis
    proof (cases "js_get (params_arguments request) (js ''query'')")
      case (Inl e)
      with True None show ?thesis
        by (simp add: run_tool_def Let_def connects_def js_eq_iff)
    next
      case (Inr v)
      with None obtain e where "detectQueryType E v = Inl e"
        using query_text_None_detect[of "params_arguments request" v E]
        by (cases "detectQueryType E v") auto
      with True None Inr show ?thesis
        by (simp add: run_tool_def Let_def connects_def js_eq_iff)
    qed
  next
    case (Some q)
    then have "js_get (params_arguments request) (js ''query'') = Inr (Str q)"
      by (simp add: query_text_Some)
    with True Some show ?thesis
      by (simp add: run_tool_def Let_def connects_def js_eq_iff detectQueryType_def
          handleExecuteQuery_acquire span_setAttribute_def is_acquire_def split: option.split)
  qed
qed

lemma run_tool_release:
  "count_events is_release (snd (run_tool E request span st)) =
     count_events is_release st + (if connects E request then 1 else 0)"
proof (cases "params_name request = js ''execute_query''")
  case False
  then show ?thesis
    by (simp add: run_tool_def Let_def handleOnboarding_state handler_no_release connects_def)
next
  case True
  show ?thesis
  proof (cases "query_text (params_arguments request)")
    case None
    show ?thesis
    proof (cases "js_get (params_arguments request) (js ''query'')")
      case (Inl e)
      with True None show ?thesis
        by (simp add: run_tool_def Let_def connects_def js_eq_iff)
    next
      case (Inr v)
      with None obtain e where "detectQueryType E v = Inl e"
        using query_text_None_detect[of "params_arguments request" v E]
        by (cases "detectQueryType E v") auto
      with True None Inr show ?thesis
        by (simp add: run_tool_def Let_def connects_def js_eq_iff)
    qed
  next
    case (Some q)
    then have "js_get (params_arguments request) (js ''query'') = Inr (Str q)"
      by (simp add: query_text_Some)
    with True Some show ?thesis
      by (simp add: run_tool_def Let_def connects_def js_eq_iff detectQueryType_def
          handleExecuteQuery_release span_setAttribute_def is_release_def split: option.split)
  qed
qed

lemma run_tool_without_text:
  assumes "params_name request = js ''execute_query''"
    and "query_text (params_arguments request) = None"
  shows "\<exists>e. run_tool E request span st = (Inl e, st) \<and>
             (js_get (params_arguments request) (js ''query'') = Inl e \<or>
              (\<exists>v. js_get (params_arguments request) (js ''query'') = Inr v \<and>
                   detectQueryType E v = Inl e))"
proof (cases "js_get (params_arguments request) (js ''query'')")
  case (Inl e)
  with assms show ?thesis
    by (simp add: run_tool_def js_eq_iff)
next
  case (Inr v)
  with assms(2) obtain e where "detectQueryType E v = Inl e"
    using query_text_None_detect[of "params_arguments request" v E]
    by (cases "detectQueryType E v") auto
  with assms Inr show ?thesis
    by (simp add: run_tool_def js_eq_iff)
qed

lemma run_tool_statement_label:
  assumes "db_tool (params_name request)"
  shows "count_events (is_duration_for (statement_label E request)) (snd (run_tool E request span st)) =
         count_events (is_duration_for (statement_label E request)) st
         + (if isl (fst (run_tool E request span st)) then 0 else 1)"
proof (cases "params_name request = js ''execute_query''")
  case False
  with assms show ?thesis
    by (auto simp add: db_tool_def run_tool_def statement_label_def handler_statement_labels
        js_eq_iff)
next
  case True
  show ?thesis
  proof (cases "query_text (params_arguments request)")
    case None
    from run_tool_without_text[OF True None, of E span st] show ?thesis
      by auto
  next
    case (Some q)
    then have q: "js_get (params_arguments request) (js ''query'') = Inr (Str q)"
      by (simp add: query_text_Some)
    with True Some show ?thesis
      by (simp add: run_tool_def statement_label_def js_eq_iff detectQueryType_def Let_def
          handleExecuteQuery_statement_label span_setAttribute_def is_duration_for_def
          split: option.split)
  qed
qed

lemma statement_label_not_tool:
  assumes "db_tool (params_name request)"
  shows "statement_label E request \<noteq> params_name request"
proof -
  have "js ''execute_query.'' @ x \<noteq> js ''execute_query''" for x
    by (simp add: js_def)
  with assms show ?thesis
    by (auto simp add: db_tool_def statement_label_def js_eq_iff)
qed

lemma success_attributes_counts:
  "count_events is_span_end (success_attributes n r st) = count_events is_span_end st"
  "count_events is_query_error (success_attributes n r st) = count_events is_query_error st"
  "count_events (is_duration_for l) (success_attributes n r st) = count_events (is_duration_for l) st"
  "count_events is_duration (success_attributes n r st) = count_events is_duration st"
  "count_events is_acquire (success_attributes n r st) = count_events is_acquire st"
  "count_events is_release (success_attributes n r st) = count_events is_release st"
  by (simp_all add: success_attributes_def span_setAttribute_def Let_def is_span_end_def
      is_query_error_def is_duration_for_def is_duration_def is_acquire_def is_release_def)

lemma fst_try_block:
  "fst (try_block E request span t st) =
     (case fst (run_tool E request span st) of
        Inl e \<Rightarrow> Inl e
      | Inr result \<Rightarrow>
          (case json_stringify E 2 result of
             Inl e \<Rightarrow> Inl e
           | Inr serialized \<Rightarrow>
               Inr \<lparr>content = [\<lparr>ctype = js ''text'', ctext = serialized\<rparr>], isError = None\<rparr>))"
  by (cases "run_tool E request span st")
     (simp add: try_block_def now_def Let_def split: sum.split)

lemma try_block_counts:
  "count_events is_span_end (snd (try_block E request span t st)) =
     count_events is_span_end st
     + (if isl (fst (run_tool E request span st)) \<or> span = None then 0 else 1)"
  "count_events is_query_error (snd (try_block E request span t st)) = count_events is_query_error st"
  "count_events (is_duration_for (params_name request)) (snd (try_block E request span t st)) =
     count_events (is_duration_for (params_name request)) st
     + (if isl (fst (run_tool E request span st)) then 0 else 1)"
  "count_events is_duration (snd (try_block E request span t st)) =
     count_events is_duration (snd (run_tool E request span st))
     + (if isl (fst (run_tool E request span st)) then 0 else 1)"
  "count_events is_acquire (snd (try_block E request span t st)) =
     count_events is_acquire (snd (run_tool E request span st))"
  "count_events is_release (snd (try_block E request span t st)) =
     count_events is_release (snd (run_tool E request span st))"
  using run_tool_span_end[of E request span st] run_tool_query_error[of E request span st]
    run_tool_duration_for[of request E span st]
  by (cases "run_tool E request span st";
      simp add: try_block_def now_def Let_def recordQueryDuration_def span_end_def
        success_attributes_counts is_span_end_def is_query_error_def is_duration_for_def
        is_duration_def is_acquire_def is_release_def split: sum.split option.split)+

lemma invocation_span_eq:
  "invocation_span E request st = (if telemetry_enabled E then Some Span else None)"
  by (simp add: invocation_span_def startSpan_def)

lemma invocation_start_eq:
  "invocation_start E request st =
     (clock E (ticks st),
      \<lparr>trace = trace st @ [ToolCall (params_name request)]
         @ (if telemetry_enabled E then [SpanStart (js ''tool.'' @ params_name request)] else []),
       ticks = Suc (ticks st)\<rparr>)"
  by (simp add: invocation_start_def startSpan_def recordToolCall_def emit_def now_def)

lemma invocation_start_counts:
  "count_events is_span_end (snd (invocation_start E request st)) = count_events is_span_end st"
  "count_events is_query_error (snd (invocation_start E request st)) = count_events is_query_error st"
  "count_events (is_duration_for l) (snd (invocation_start E request st)) = count_events (is_duration_for l) st"
  "count_events is_duration (snd (invocation_start E request st)) = count_events is_duration st"
  "count_events is_acquire (snd (invocation_start E request st)) = count_events is_acquire st"
  "count_events is_release (snd (invocation_start E request st)) = count_events is_release st"
  by (simp_all add: invocation_start_eq count_events_def is_span_end_def is_query_error_def
      is_duration_for_def is_duration_def is_acquire_def is_release_def)

lemma call_tool_outcome:
  "call_tool E request st =
     (case try_outcome E request st of
        (Inr response, st4) \<Rightarrow> (response, st4)
      | (Inl error, st4) \<Rightarrow>
          catch_block E (params_name request) (invocation_span E request st)
            (fst (invocation_start E request st)) error st4)"
  unfolding call_tool_def try_outcome_def invocation_span_def invocation_start_def
  by (simp add: Let_def case_prod_beta)

lemma try_outcome_switch_throws:
  "fst (switch_outcome E request st) = Inl e \<Longrightarrow>
     try_outcome E request st = (Inl e, snd (switch_outcome E request st))"
  by (cases "switch_outcome E request st")
     (simp add: try_outcome_def switch_outcome_def try_block_def)

lemma switch_throws_try_throws:
  "isl (fst (switch_outcome E request st)) \<Longrightarrow> isl (fst (try_outcome E request st))"
  by (cases "fst (switch_outcome E request st)") (simp_all add: try_outcome_switch_throws)

lemma fst_catch_block:
  "fst (catch_block E toolName span startTime error st) = error_envelope (message_of E error)"
  by (simp add: catch_block_def error_envelope_def now_def Let_def)

lemma count_catch_block:
  "count_events P (snd (catch_block E toolName span startTime error st)) =
     count_events P st
     + (if P (QueryDuration (clock E (ticks st) - startTime) toolName) then 1 else 0)
     + (if P (QueryError toolName (message_of E error)) then 1 else 0)
     + (case span of None \<Rightarrow> 0
        | Some x \<Rightarrow> (if P (SpanSetAttribute (js ''success'') (Bool False)) then 1 else 0)
            + (if P (SpanSetAttribute (js ''error'') (Str (message_of E error))) then 1 else 0)
            + (if P SpanEnd then 1 else 0))"
  by (simp add: catch_block_def now_def Let_def recordQueryDuration_def recordQueryError_def
      span_end_def span_setAttribute_def split: option.split)

lemma try_outcome_counts:
  "count_events is_span_end (snd (try_outcome E request st)) =
     count_events is_span_end st
     + (if isl (fst (switch_outcome E request st)) \<or> \<not> telemetry_enabled E then 0 else 1)"
  "count_events is_query_error (snd (try_outcome E request st)) = count_events is_query_error st"
  "count_events (is_duration_for (params_name request)) (snd (try_outcome E request st)) =
     count_events (is_duration_for (params_name request)) st
     + (if isl (fst (switch_outcome E request st)) then 0 else 1)"
  "count_events is_duration (snd (try_outcome E request st)) =
     count_events is_duration st
     + (if isl (fst (switch_outcome E request st)) then 0
        else if db_tool (params_name request) then 2 else 1)"
  "count_events is_acquire (snd (try_outcome E request st)) =
     count_events is_acquire st + (if connects E request then 1 else 0)"
  "count_events is_release (snd (try_outcome E request st)) =
     count_events is_release st + (if connects E request then 1 else 0)"
  by (simp_all add: try_outcome_def switch_outcome_def try_block_counts invocation_start_counts
      invocation_span_eq run_tool_durations run_tool_acquire run_tool_release)

lemma snd_call_tool:
  "snd (call_tool E request st) =
     (case fst (try_outcome E request st) of
        Inr response \<Rightarrow> snd (try_outcome E request st)
      | Inl error \<Rightarrow>
          snd (catch_block E (params_name request) (invocation_span E request st)
                 (fst (invocation_start E request st)) error (snd (try_outcome E request st))))"
  by (simp add: call_tool_outcome case_prod_beta split: sum.split)

lemma fst_call_tool:
  "fst (call_tool E request st) =
     (case fst (try_outcome E request st) of
        Inr response \<Rightarrow> response
      | Inl error \<Rightarrow> error_envelope (message_of E error))"
  by (simp add: call_tool_outcome case_prod_beta fst_catch_block split: sum.split)

lemma call_tool_counts:
  "count_events is_span_end (snd (call_tool E request st)) =
     count_events is_span_end (snd (try_outcome E request st))
     + (if isl (fst (try_outcome E request st)) \<and> telemetry_enabled E then 1 else 0)"
  "count_events is_query_error (snd (call_tool E request st)) =
     count_events is_query_error (snd (try_outcome E request st))
     + (if isl (fst (try_outcome E request st)) then 1 else 0)"
  "count_events (is_duration_for (params_name request)) (snd (call_tool E request st)) =
     count_events (is_duration_for (params_name request)) (snd (try_outcome E request st))
     + (if isl (fst (try_outcome E request st)) then 1 else 0)"
  "count_events is_duration (snd (call_tool E request st)) =
     count_events is_duration (snd (try_outcome E request st))
     + (if isl (fst (try_outcome E request st)) then 1 else 0)"
  "count_events is_acquire (snd (call_tool E request st)) =
     count_events is_acquire (snd (try_outcome E request st))"
  "count_events is_release (snd (call_tool E request st)) =
     count_events is_release (snd (try_outcome E request st))"
  by (simp_all add: snd_call_tool count_catch_block invocation_span_eq is_span_end_def
      is_query_error_def is_duration_for_def is_duration_def is_acquire_def is_release_def
      split: sum.split)

lemma call_tool_statement_label:
  assumes "db_tool (params_name request)"
  shows "count_events (is_duration_for (statement_label E request)) (snd (call_tool E request st)) =
         count_events (is_duration_for (statement_label E request)) st
         + (if isl (fst (switch_outcome E request st)) then 0 else 1)"
proof -
  have tb: "count_events (is_duration_for (statement_label E request))
               (snd (try_block E request span t st')) =
             count_events (is_duration_for (statement_label E request))
               (snd (run_tool E request span st'))" for span t st'
    using statement_label_not_tool[OF assms, of E]
    by (cases "run_tool E request span st'")
       (simp add: try_block_def now_def Let_def recordQueryDuration_def span_end_def
          success_attributes_counts is_duration_for_def split: sum.split option.split)
  show ?thesis
    using statement_label_not_tool[OF assms, of E]
    by (simp add: snd_call_tool count_catch_block is_duration_for_def try_outcome_def tb
        switch_outcome_def run_tool_statement_label[OF assms] invocation_start_counts
        split: sum.split option.split)
qed

text \<open>
  Claim C1. Whatever the \<open>switch\<close> throws (a handler, the classifier, the default
  case) is what the \<open>try\<close> block throws, and whatever the \<open>try\<close> block throws is
  caught: the message is the \<open>message\<close> of an \<open>Error\<close> (for a TypeError of the
  engine, the engine's wording) and the string coercion of anything else; the invocation
  returns the envelope with \<open>isError = true\<close> and one text block whose text is the
  serialisation of the message, and that text read back as JSON is the object with the
  single field \<open>error\<close> holding the message; exactly one error is recorded. The
  dispatcher returns an envelope on every input.
\<close>

theorem dispatcher_catches:
  "(fst (switch_outcome E request st) = Inl e \<longrightarrow> fst (try_outcome E request st) = Inl e) \<and>
   (fst (try_outcome E request st) = Inl e \<longrightarrow>
      (let errorMessage =
             (case e of
                ErrorObj m \<Rightarrow> m
              | TypeErr f \<Rightarrow> type_error_message E f
              | NonError coerced \<Rightarrow> coerced)
       in fst (call_tool E request st) =
            \<lparr>content = [\<lparr>ctype = js ''text'', ctext = Some (stringify_error errorMessage)\<rparr>],
             isError = Some True\<rparr> \<and>
          parse_error_object (stringify_error errorMessage) = Some (js ''error'', errorMessage)) \<and>
      count_events is_query_error (snd (call_tool E request st)) = count_events is_query_error st + 1)"
  by (cases e)
     (simp_all add: try_outcome_switch_throws fst_call_tool call_tool_counts try_outcome_counts
        error_envelope_def message_of_def parse_stringify_error)

lemma example_switch_throws:
  "fst (switch_outcome example_env bad_sql_request initial_state) =
     Inl (ErrorObj (js ''You have an error in your SQL syntax''))"
  "fst (switch_outcome (example_env\<lparr>pool_getConnection := Some pool_closed\<rparr>) select_request
     initial_state) = Inl pool_closed"
  by (simp_all add: switch_outcome_def invocation_span_def invocation_start_def model_defs
      example_defs js_eq_iff)

theorem dispatcher_catches_witness:
  "fst (switch_outcome example_env bad_sql_request initial_state) =
     Inl (ErrorObj (js ''You have an error in your SQL syntax'')) \<and>
   fst (call_tool example_env bad_sql_request initial_state) =
     \<lparr>content =
        [\<lparr>ctype = js ''text'',
           ctext = Some (js ''{'' @ [0x22] @ js ''error'' @ [0x22] @ js '':'' @ [0x22]
                         @ js ''You have an error in your SQL syntax'' @ [0x22] @ js ''}'')\<rparr>],
      isError = Some True\<rparr> \<and>
   fst (switch_outcome (example_env\<lparr>pool_getConnection := Some pool_closed\<rparr>) select_request
     initial_state) = Inl pool_closed \<and>
   fst (call_tool (example_env\<lparr>pool_getConnection := Some pool_closed\<rparr>) select_request
     initial_state) =
     \<lparr>content =
        [\<lparr>ctype = js ''text'',
           ctext = Some (js ''{'' @ [0x22] @ js ''error'' @ [0x22] @ js '':'' @ [0x22]
                         @ js ''pool '' @ [0x5C, 0x22] @ js ''main'' @ [0x5C, 0x22] @ js '' closed''
                         @ [0x22] @ js ''}'')\<rparr>],
      isError = Some True\<rparr>"
  using
    dispatcher_catches[of example_env bad_sql_request initial_state
      "ErrorObj (js ''You have an error in your SQL syntax'')"]
    dispatcher_catches[of "example_env\<lparr>pool_getConnection := Some pool_closed\<rparr>"
      select_request initial_state pool_closed]
    example_switch_throws
  by (simp add: pool_closed_def Let_def stringify_error_def QuoteJSONString_def quote_unit_def
      is_high_surrogate_def is_low_surrogate_def js_def)

text \<open>
  Claim C2, as amended. In every invocation in which the serialisation of the response
  does not throw, whether the handler returns or throws: the dispatcher records exactly
  one duration under the name of the tool; a span is ended exactly once when telemetry
  hands one out, and nothing is ended when it hands out none; and the handler of a
  database tool that returns has recorded exactly one more duration, under its statement
  label (\<open>list_tables.SHOW\<close>, \<open>get_table_schema.DESCRIBE\<close>, or \<open>execute_query.\<close>
  followed by the verb of the query), which differs from the name of the tool, so that two
  durations are recorded in all on that path and one on every other path.
\<close>

theorem dispatcher_records_once:
  assumes "\<not> serialization_throws E request st"
  shows "count_events (is_duration_for (params_name request)) (snd (call_tool E request st)) =
           count_events (is_duration_for (params_name request)) st + 1 \<and>
         count_events is_span_end (snd (call_tool E request st)) =
           count_events is_span_end st + (if telemetry_enabled E then 1 else 0) \<and>
         count_events is_duration (snd (call_tool E request st)) =
           count_events is_duration st
           + (if \<not> isl (fst (switch_outcome E request st)) \<and> db_tool (params_name request)
              then 2 else 1) \<and>
         (db_tool (params_name request) \<longrightarrow>
            statement_label E request \<noteq> params_name request \<and>
            count_events (is_duration_for (statement_label E request)) (snd (call_tool E request st)) =
              count_events (is_duration_for (statement_label E request)) st
              + (if isl (fst (switch_outcome E request st)) then 0 else 1))"
  using assms
  by (auto simp add: serialization_throws_def call_tool_counts try_outcome_counts
      call_tool_statement_label statement_label_not_tool dest: switch_throws_try_throws)

theorem dispatcher_records_once_witness:
  "(\<not> serialization_throws example_env list_tables_request initial_state \<and>
    count_events (is_duration_for (js ''list_tables''))
      (snd (call_tool example_env list_tables_request initial_state)) = 1 \<and>
    count_events is_span_end (snd (call_tool example_env list_tables_request initial_state)) = 1 \<and>
    count_events is_duration (snd (call_tool example_env list_tables_request initial_state)) = 2 \<and>
    count_events (is_duration_for (js ''list_tables.SHOW''))
      (snd (call_tool example_env list_tables_request initial_state)) = 1) \<and>
   (\<not> serialization_throws example_env bad_sql_request initial_state \<and>
    count_events (is_duration_for (js ''execute_query''))
      (snd (call_tool example_env bad_sql_request initial_state)) = 1 \<and>
    count_events is_span_end (snd (call_tool example_env bad_sql_request initial_state)) = 1 \<and>
    count_events is_duration (snd (call_tool example_env bad_sql_request initial_state)) = 1)"
proof -
  have ok: "\<not> serialization_throws example_env list_tables_request initial_state"
    and returns: "\<not> isl (fst (switch_outcome example_env list_tables_request initial_state))"
    by (simp_all add: outcome_defs model_defs example_defs js_eq_iff)
  have bad: "\<not> serialization_throws example_env bad_sql_request initial_state"
    and throws: "isl (fst (switch_outcome example_env bad_sql_request initial_state))"
    by (simp_all add: outcome_defs model_defs example_defs js_eq_iff)
  have label: "statement_label example_env list_tables_request = js ''list_tables.SHOW''"
    by (simp add: statement_label_def list_tables_request_def)
  from dispatcher_records_once[OF ok] dispatcher_records_once[OF bad] ok bad returns throws label
  show ?thesis
    by (simp add: count_events_def initial_state_def list_tables_request_def bad_sql_request_def
        db_tool_def example_env_def js_eq_iff)
qed

text \<open>
  On the path the amended claim leaves out, the \<open>return\<close> of the \<open>try\<close> block
  throws while serialising the result, after the duration was recorded and the span
  ended; the \<open>catch\<close> block then records the duration and ends the span once more.
\<close>

lemma serialization_throws_records_twice:
  assumes "serialization_throws E request st"
  shows "count_events (is_duration_for (params_name request)) (snd (call_tool E request st)) =
           count_events (is_duration_for (params_name request)) st + 2 \<and>
         count_events is_span_end (snd (call_tool E request st)) =
           count_events is_span_end st + (if telemetry_enabled E then 2 else 0)"
  using assms
  by (auto simp add: serialization_throws_def call_tool_counts try_outcome_counts)

text \<open>
  Claim C2 as stated fails: a successful \<open>list_tables\<close> records two durations (one by
  the handler, one by the dispatcher), and with telemetry disabled no span is ended.
\<close>

theorem dispatcher_records_counterexample:
  "count_events is_duration (snd (call_tool example_env list_tables_request initial_state)) = 2 \<and>
   count_events is_span_end
     (snd (call_tool (example_env\<lparr>telemetry_enabled := False\<rparr>) list_tables_request
            initial_state)) = 0"
  by (simp add: model_defs example_defs js_eq_iff count_events_def is_duration_def is_span_end_def)

lemma call_tool_switch_throws:
  assumes "run_tool E request (invocation_span E request st) (snd (invocation_start E request st)) =
             (Inl e, snd (invocation_start E request st))"
  shows "call_tool E request st =
           (error_envelope (message_of E e),
            \<lparr>trace = trace st @ error_events E (params_name request)
                 (clock E (Suc (ticks st)) - clock E (ticks st)) (message_of E e),
             ticks = Suc (Suc (ticks st))\<rparr>)"
proof -
  have "try_outcome E request st = (Inl e, snd (invocation_start E request st))"
    using assms by (simp add: try_outcome_def try_block_def)
  then show ?thesis
    by (simp add: call_tool_outcome catch_block_def error_envelope_def invocation_span_eq
        invocation_start_eq now_def Let_def recordQueryDuration_def recordQueryError_def
        span_setAttribute_def span_end_def emit_def error_events_def)
qed

text \<open>
  Claim C6. For a tool name outside \<open>onboarding\<close>, \<open>list_tables\<close>,
  \<open>get_table_schema\<close>, \<open>execute_query\<close> the invocation records the call count for
  that name first, runs no handler (no statement, no connection: the events are those of
  the dispatcher alone), records the duration and the error, and returns the envelope
  with \<open>isError = true\<close> whose payload is \<open>{ error: "Unknown tool: <name>" }\<close>. It
  returns; nothing ends the process.
\<close>

theorem unknown_tool_envelope:
  assumes "\<not> registered_tool (params_name request)"
  shows "call_tool E request st =
           (error_envelope (js ''Unknown tool: '' @ params_name request),
            \<lparr>trace = trace st @ error_events E (params_name request)
                 (clock E (Suc (ticks st)) - clock E (ticks st))
                 (js ''Unknown tool: '' @ params_name request),
             ticks = Suc (Suc (ticks st))\<rparr>)"
proof -
  have "run_tool E request (invocation_span E request st) (snd (invocation_start E request st)) =
          (Inl (ErrorObj (js ''Unknown tool: '' @ params_name request)),
           snd (invocation_start E request st))"
    using assms by (simp add: run_tool_def registered_tool_def)
  from call_tool_switch_throws[OF this] show ?thesis
    by (simp add: message_of_def)
qed

theorem unknown_tool_envelope_witness:
  "\<not> registered_tool (params_name unknown_request) \<and>
   call_tool example_env unknown_request initial_state =
     (\<lparr>content =
         [\<lparr>ctype = js ''text'',
            ctext = Some (js ''{'' @ [0x22] @ js ''error'' @ [0x22] @ js '':'' @ [0x22]
                          @ js ''Unknown tool: drop_database'' @ [0x22] @ js ''}'')\<rparr>],
       isError = Some True\<rparr>,
      \<lparr>trace =
         [ToolCall (js ''drop_database''), SpanStart (js ''tool.drop_database''),
          QueryDuration 5 (js ''drop_database''),
          QueryError (js ''drop_database'') (js ''Unknown tool: drop_database''),
          SpanSetAttribute (js ''success'') (Bool False),
          SpanSetAttribute (js ''error'') (Str (js ''Unknown tool: drop_database'')),
          SpanEnd],
       ticks = 2\<rparr>)"
proof -
  have h: "\<not> registered_tool (params_name unknown_request)"
    by (simp add: registered_tool_def unknown_request_def js_eq_iff)
  from unknown_tool_envelope[OF h, of example_env initial_state] h show ?thesis
    by (simp add: error_envelope_def error_events_def stringify_error_def QuoteJSONString_def
        quote_unit_def is_high_surrogate_def is_low_surrogate_def unknown_request_def
        example_env_def initial_state_def js_def)
qed


text \<open>
  Claim C9. When the tool is \<open>execute_query\<close> and the \<open>query\<close> argument is missing
  or is not a string, the \<open>switch\<close> throws before \<open>handleExecuteQuery\<close> is called:
  the property read throws when there is no arguments object, and the classifier throws
  otherwise. The invocation returns the envelope with \<open>isError = true\<close>, and its events
  are those of the dispatcher alone: no connection is requested.
\<close>

theorem execute_query_without_text:
  assumes "params_name request = js ''execute_query''"
    and "query_text (params_arguments request) = None"
  shows "\<exists>e. (js_get (params_arguments request) (js ''query'') = Inl e \<or>
              (\<exists>v. js_get (params_arguments request) (js ''query'') = Inr v \<and>
                   detectQueryType E v = Inl e)) \<and>
             call_tool E request st =
               (error_envelope (message_of E e),
                \<lparr>trace = trace st @ error_events E (js ''execute_query'')
                     (clock E (Suc (ticks st)) - clock E (ticks st)) (message_of E e),
                 ticks = Suc (Suc (ticks st))\<rparr>)"
proof -
  from run_tool_without_text[OF assms, of E "invocation_span E request st"
      "snd (invocation_start E request st)"]
  obtain e where
    rt: "run_tool E request (invocation_span E request st) (snd (invocation_start E request st)) =
           (Inl e, snd (invocation_start E request st))"
    and why: "js_get (params_arguments request) (js ''query'') = Inl e \<or>
              (\<exists>v. js_get (params_arguments request) (js ''query'') = Inr v \<and>
                   detectQueryType E v = Inl e)"
    by blast
  from call_tool_switch_throws[OF rt] why assms(1) show ?thesis
    by auto
qed

theorem execute_query_without_text_witness:
  "params_name no_query_request = js ''execute_query'' \<and>
   query_text (params_arguments no_query_request) = None \<and>
   isError (fst (call_tool example_env no_query_request initial_state)) = Some True \<and>
   count_events is_get_connection (snd (call_tool example_env no_query_request initial_state)) = 0"
proof -
  have h1: "params_name no_query_request = js ''execute_query''"
    and h2: "query_text (params_arguments no_query_request) = None"
    by (simp_all add: no_query_request_def query_text_def js_get_def is_nullish_def js_prop_def)
  from execute_query_without_text[OF h1 h2, of example_env initial_state] h1 h2 show ?thesis
    by (auto simp: error_envelope_def error_events_def count_events_def is_get_connection_def
        initial_state_def)
qed

section \<open>The connection\<close>

text \<open>
  Claim C3. An invocation obtains a connection exactly when the tool is
  \<open>execute_query\<close>, the \<open>query\<close> argument is a string and the pool hands a connection
  out; in that case it releases the connection exactly once, whatever the statement
  execution and the shaping of the result do, and in every other case it releases nothing.
\<close>

theorem connection_released_once:
  "count_events is_acquire (snd (call_tool E request st)) =
     count_events is_acquire st + (if connects E request then 1 else 0) \<and>
   count_events is_release (snd (call_tool E request st)) =
     count_events is_release st + (if connects E request then 1 else 0)"
  by (simp add: call_tool_counts try_outcome_counts)

theorem connection_released_once_witness:
  "connects example_env bad_sql_request \<and>
   isError (fst (call_tool example_env bad_sql_request initial_state)) = Some True \<and>
   count_events is_acquire (snd (call_tool example_env bad_sql_request initial_state)) = 1 \<and>
   count_events is_release (snd (call_tool example_env bad_sql_request initial_state)) = 1"
proof -
  have c: "connects example_env bad_sql_request"
    by (simp add: connects_def query_text_def js_get_def is_nullish_def js_prop_def
        bad_sql_request_def example_env_def)
  have "isError (fst (call_tool example_env bad_sql_request initial_state)) = Some True"
    by (simp add: model_defs example_defs js_eq_iff)
  with connection_released_once[of example_env bad_sql_request initial_state] c show ?thesis
    by (simp add: count_events_def initial_state_def)
qed

section \<open>The schema handler\<close>

lemma handleGetTableSchema_without_create:
  assumes "js_get args (js ''table'') = Inr table"
    and "pool_query E (js ''DESCRIBE ??'') [table] = Inr columns"
    and "pool_query E (js ''SHOW INDEXES FROM ??'') [table] = Inr indexes"
    and "pool_query E (js ''SHOW CREATE TABLE ??'') [table] = Inl e"
  shows "handleGetTableSchema E args st =
           (Inr (schema_result E table columns indexes (Str [])),
            \<lparr>trace = trace st @
               [PoolQuery (js ''DESCRIBE ??'') [table],
                PoolQuery (js ''SHOW INDEXES FROM ??'') [table],
                PoolQuery (js ''SHOW CREATE TABLE ??'') [table],
                ConsoleError (js ''Could not get CREATE TABLE info:'') e,
                QueryRows (int (length columns) + int (length indexes)) (js ''DESCRIBE'')
                  (js ''get_table_schema''),
                QueryBytes (payload_bytes E (schema_result E table columns indexes (Str [])))
                  (js ''DESCRIBE'') (js ''get_table_schema''),
                QueryDuration (clock E (Suc (ticks st)) - clock E (ticks st))
                  (js ''get_table_schema.DESCRIBE'')],
             ticks = Suc (Suc (ticks st))\<rparr>)"
  using assms
  by (simp add: handleGetTableSchema_def create_table_try_def schema_result_def now_def Let_def
      emit_def recordQueryRows_def recordQueryBytes_def recordQueryDuration_def)

text \<open>
  Claim C7. When the column and index statements succeed and \<open>SHOW CREATE TABLE\<close>
  fails, \<open>handleGetTableSchema\<close> logs the failure and returns the result with the
  columns and indexes of the first two statements and the empty string as
  \<open>createTableStatement\<close>; the invocation then answers with the serialised result and no
  error flag.
\<close>

theorem schema_without_create_statement:
  assumes "js_get args (js ''table'') = Inr table"
    and "pool_query E (js ''DESCRIBE ??'') [table] = Inr columns"
    and "pool_query E (js ''SHOW INDEXES FROM ??'') [table] = Inr indexes"
    and "pool_query E (js ''SHOW CREATE TABLE ??'') [table] = Inl e"
  shows "fst (handleGetTableSchema E args st) = Inr (schema_result E table columns indexes (Str [])) \<and>
         ConsoleError (js ''Could not get CREATE TABLE info:'') e
           \<in> set (trace (snd (handleGetTableSchema E args st))) \<and>
         (json_stringify E 2 (schema_result E table columns indexes (Str [])) = Inr serialized \<longrightarrow>
            fst (call_tool E \<lparr>params_name = js ''get_table_schema'', params_arguments = args\<rparr> st) =
              \<lparr>content = [\<lparr>ctype = js ''text'', ctext = serialized\<rparr>], isError = None\<rparr>)"
  using handleGetTableSchema_without_create[OF assms]
  by (simp add: fst_call_tool try_outcome_def fst_try_block run_tool_def js_eq_iff Let_def)

theorem schema_without_create_statement_witness:
  "pool_query example_env (js ''SHOW CREATE TABLE ??'') [Str (js ''users'')] =
     Inl (ErrorObj (js ''SHOW command denied to user'')) \<and>
   fst (handleGetTableSchema example_env (params_arguments schema_request) initial_state) =
     Inr (Obj [(js ''database'', Str (js ''shop'')), (js ''table'', Str (js ''users'')),
               (js ''columns'', Arr [Obj [(js ''Field'', Str (js ''id'')), (js ''Type'', Str (js ''int''))]]),
               (js ''indexes'', Arr [Obj [(js ''Key_name'', Str (js ''PRIMARY''))]]),
               (js ''createTableStatement'', Str [])]) \<and>
   fst (call_tool example_env schema_request initial_state) =
     \<lparr>content = [\<lparr>ctype = js ''text'', ctext = Some (js ''{}'')\<rparr>], isError = None\<rparr>"
proof -
  have a: "js_get (params_arguments schema_request) (js ''table'') = Inr (Str (js ''users''))"
    by (simp add: schema_request_def js_get_def is_nullish_def js_prop_def)
  have b: "pool_query example_env (js ''DESCRIBE ??'') [Str (js ''users'')] =
             Inr [Obj [(js ''Field'', Str (js ''id'')), (js ''Type'', Str (js ''int''))]]"
    and c: "pool_query example_env (js ''SHOW INDEXES FROM ??'') [Str (js ''users'')] =
             Inr [Obj [(js ''Key_name'', Str (js ''PRIMARY''))]]"
    and d: "pool_query example_env (js ''SHOW CREATE TABLE ??'') [Str (js ''users'')] =
             Inl (ErrorObj (js ''SHOW command denied to user''))"
    by (simp_all add: example_env_def example_pool_query_def js_eq_iff)
  have e: "\<lparr>params_name = js ''get_table_schema'',
            params_arguments = params_arguments schema_request\<rparr> = schema_request"
    by (simp add: schema_request_def)
  from schema_without_create_statement[OF a b c d, where serialized = "Some (js ''{}'')"
      and st = initial_state] d e
  show ?thesis
    by (simp add: schema_result_def database_value_def example_env_def)
qed

section \<open>The result shapes and the metrics of execute-query\<close>

lemma example_queries:
  "pool_getConnection example_env = None"
  "js_get (params_arguments select_request) (js ''query'') = Inr (Str (js ''SELECT 1''))"
  "js_get (params_arguments delete_request) (js ''query'') = Inr (Str (js ''DELETE FROM x WHERE 1=0''))"
  "connection_query example_env (Str (js ''SELECT 1'')) =
     Inr (RowsArray [Obj [(js ''1'', Num 1)]],
          Some [Obj [(js ''name'', Str (js ''1'')), (js ''type'', Num 8), (js ''flags'', Num 129)]])"
  "connection_query example_env (Str (js ''DELETE FROM x WHERE 1=0'')) =
     Inr (Header \<lparr>affectedRows = 0, insertId = 0, warningStatus = 0\<rparr>, None)"
  by (simp_all add: example_env_def example_connection_query_def select_request_def
      delete_request_def js_get_def is_nullish_def js_prop_def js_eq_iff)

lemma example_verbs:
  "verb_of example_env (js ''SELECT 1'') = js ''SELECT''"
  "verb_of example_env (js ''DELETE FROM x WHERE 1=0'') = js ''DELETE''"
  by (simp_all add: verb_of_def classify_def startsWith_def trim_def js_def is_js_whitespace_def
      upper_code_point_def is_high_surrogate_def)






end
